theory Spec2Isabelle
  imports Main "HOL-Library.Sublist" "HOL-Library.Word" "HOL-Library.AList"
begin

unbundle bit_operations_syntax

section \<open>Go's strings package, as far as the controller uses it\<close>

text \<open>
  A Go string is a sequence of bytes; a HOL \<open>string\<close> is a list of \<open>char\<close>, one per byte.
  \<open>strings.HasPrefix(s, p)\<close> and \<open>strings.Contains(s, sub)\<close> are the prefix and the
  contiguous-sublist relations.
\<close>

definition strings_HasPrefix :: "string \<Rightarrow> string \<Rightarrow> bool" where
  "strings_HasPrefix s p = prefix p s"

definition strings_Contains :: "string \<Rightarrow> string \<Rightarrow> bool" where
  "strings_Contains s sub = sublist sub s"

definition nl :: char where
  "nl = CHR 0x0A"

text \<open>\<open>strings.Split(s, "\n")\<close>: the pieces between the newlines, \<open>n + 1\<close> of them for \<open>n\<close> newlines.\<close>

fun strings_Split :: "string \<Rightarrow> string list" where
  "strings_Split [] = [[]]"
| "strings_Split (c # cs) =
     (if c = nl then [] # strings_Split cs
      else (case strings_Split cs of
              [] \<Rightarrow> [[c]]
            | l # ls \<Rightarrow> (c # l) # ls))"

section \<open>The constants of network\_policy\_controller.go\<close>

definition kubePodFirewallChainPrefix :: string where
  "kubePodFirewallChainPrefix = ''KUBE-POD-FW-''"

definition kubeNetworkPolicyChainPrefix :: string where
  "kubeNetworkPolicyChainPrefix = ''KUBE-NWPLCY-''"

definition kubeSourceIPSetPrefix :: string where
  "kubeSourceIPSetPrefix = ''KUBE-SRC-''"

definition kubeDestinationIPSetPrefix :: string where
  "kubeDestinationIPSetPrefix = ''KUBE-DST-''"

definition kubeInputChainName :: string where
  "kubeInputChainName = ''KUBE-ROUTER-INPUT''"

definition kubeForwardChainName :: string where
  "kubeForwardChainName = ''KUBE-ROUTER-FORWARD''"

definition kubeOutputChainName :: string where
  "kubeOutputChainName = ''KUBE-ROUTER-OUTPUT''"

definition KubeDefaultPodFWChain :: string where
  "KubeDefaultPodFWChain = ''KUBE-POD-FW-DEFAULT''"

definition kubeIngressNetpolChain :: string where
  "kubeIngressNetpolChain = ''KUBE-NWPLCY-DEFAULT-INGRESS''"

definition kubeEgressNetpolChain :: string where
  "kubeEgressNetpolChain = ''KUBE-NWPLCY-DEFAULT-EGRESS''"

section \<open>The controller state and the full-sync request channel\<close>

text \<open>
  \<open>NetworkPolicyController\<close>: the fields the constructor fills and the handlers read.
  \<open>fullSyncRequestChan\<close> is \<open>make(chan struct{}, 1)\<close>: its buffered elements are a list of
  units and its capacity is the constant below. A \<open>net.IPNet\<close> is kept as its text.
\<close>

record NetworkPolicyController =
  nodeIP :: string
  nodeHostName :: string
  nodePodIPCIDR :: string
  serviceClusterIPRange :: string
  serviceExternalIPRanges :: "string list"
  serviceNodePortRange :: string
  syncPeriod :: nat
  MetricsEnabled :: bool
  fullSyncRequestChan :: "unit list"
  readyForUpdates :: bool
  netpolAllowPreCheck :: bool

definition fullSyncRequestChanCap :: nat where
  "fullSyncRequestChanCap = 1"

text \<open>
  A send on a buffered channel inside a \<open>select\<close>: it is ready when the buffer has room,
  and would block otherwise.
\<close>

datatype 'a select_case = Ready 'a | WouldBlock

definition chan_send :: "nat \<Rightarrow> unit list \<Rightarrow> unit list select_case" where
  "chan_send cap buf = (if length buf < cap then Ready (buf @ [()]) else WouldBlock)"

text \<open>
  \<open>RequestFullSync\<close>: a \<open>select\<close> with the send as its one case and a \<open>default\<close> that
  only logs, so the call returns in both cases.
\<close>

definition RequestFullSync :: "NetworkPolicyController \<Rightarrow> NetworkPolicyController" where
  "RequestFullSync npc =
     (case chan_send fullSyncRequestChanCap (fullSyncRequestChan npc) of
        Ready buf \<Rightarrow> npc\<lparr>fullSyncRequestChan := buf\<rparr>
      | WouldBlock \<Rightarrow> npc)"

subsection \<open>Pod event handlers (newPodEventHandler)\<close>

text \<open>
  The fields of \<open>api.Pod\<close> the controller reads. \<open>Labels\<close> is a Go map that may be nil:
  \<open>reflect.DeepEqual\<close> tells a nil map from an empty one, as \<open>None\<close> differs from
  \<open>Some Map.empty\<close>.
\<close>

record Pod =
  Namespace :: string
  Name :: string
  Phase :: string
  PodIP :: string
  HostIP :: string
  HostNetwork :: bool
  Labels :: "(string \<rightharpoonup> string) option"

definition AddFunc :: "Pod \<Rightarrow> NetworkPolicyController \<Rightarrow> NetworkPolicyController" where
  "AddFunc obj npc = (if \<not> readyForUpdates npc then npc else RequestFullSync npc)"

definition UpdateFunc :: "Pod \<Rightarrow> Pod \<Rightarrow> NetworkPolicyController \<Rightarrow> NetworkPolicyController" where
  "UpdateFunc oldObj newObj npc =
     (if \<not> readyForUpdates npc then npc
      else if Phase newObj \<noteq> Phase oldObj \<or> PodIP newObj \<noteq> PodIP oldObj
              \<or> Labels newObj \<noteq> Labels oldObj
           then RequestFullSync npc
           else npc)"

definition DeleteFunc :: "Pod \<Rightarrow> NetworkPolicyController \<Rightarrow> NetworkPolicyController" where
  "DeleteFunc obj npc = (if \<not> readyForUpdates npc then npc else RequestFullSync npc)"

subsection \<open>The Run loop as atomic steps\<close>

text \<open>
  \<open>Run\<close> starts a goroutine that receives from the channel, calls \<open>fullPolicySync\<close> and
  then sets \<open>readyForUpdates\<close>; its own loop calls \<open>RequestFullSync\<close> at every tick. The
  informer delivers pod events at any time. One interleaving is a list of events:
  \<^item> \<open>Tick\<close>: the ticker loop calls \<open>RequestFullSync\<close>;
  \<^item> \<open>SyncReceive\<close>: the goroutine takes a request from the channel and enters
    \<open>fullPolicySync\<close> (it stays blocked when the channel is empty or a sync is running);
  \<^item> \<open>SyncReturn\<close>: \<open>fullPolicySync\<close> has returned and \<open>readyForUpdates\<close> is set;
  \<^item> the three pod callbacks.
  The goroutine's control point (\<open>syncing\<close>) is kept beside the controller.
\<close>

datatype event =
    Tick
  | SyncReceive
  | SyncReturn
  | PodAdded Pod
  | PodUpdated Pod Pod
  | PodDeleted Pod

record run_state =
  npc :: NetworkPolicyController
  syncing :: bool

definition receives :: "event \<Rightarrow> run_state \<Rightarrow> bool" where
  "receives e s = (e = SyncReceive \<and> \<not> syncing s \<and> fullSyncRequestChan (npc s) \<noteq> [])"

fun step :: "event \<Rightarrow> run_state \<Rightarrow> run_state" where
  "step Tick s = s\<lparr>npc := RequestFullSync (npc s)\<rparr>"
| "step SyncReceive s =
     (if receives SyncReceive s
      then s\<lparr>npc := (npc s)\<lparr>fullSyncRequestChan := tl (fullSyncRequestChan (npc s))\<rparr>,
             syncing := True\<rparr>
      else s)"
| "step SyncReturn s =
     (if syncing s then s\<lparr>npc := (npc s)\<lparr>readyForUpdates := True\<rparr>, syncing := False\<rparr>
      else s)"
| "step (PodAdded obj) s = s\<lparr>npc := AddFunc obj (npc s)\<rparr>"
| "step (PodUpdated oldObj newObj) s = s\<lparr>npc := UpdateFunc oldObj newObj (npc s)\<rparr>"
| "step (PodDeleted obj) s = s\<lparr>npc := DeleteFunc obj (npc s)\<rparr>"

fun run :: "event list \<Rightarrow> run_state \<Rightarrow> run_state" where
  "run [] s = s"
| "run (e # es) s = run es (step e s)"

text \<open>The number of full syncs the goroutine starts along an interleaving.\<close>

fun syncs_started :: "event list \<Rightarrow> run_state \<Rightarrow> nat" where
  "syncs_started [] s = 0"
| "syncs_started (e # es) s = (if receives e s then 1 else 0) + syncs_started es (step e s)"

fun is_pod_event :: "event \<Rightarrow> bool" where
  "is_pod_event (PodAdded _) = True"
| "is_pod_event (PodUpdated _ _) = True"
| "is_pod_event (PodDeleted _) = True"
| "is_pod_event _ = False"

fun is_request :: "event \<Rightarrow> bool" where
  "is_request Tick = True"
| "is_request (PodAdded _) = True"
| "is_request (PodUpdated _ _) = True"
| "is_request (PodDeleted _) = True"
| "is_request _ = False"

section \<open>Construction: NewNetworkPolicyController\<close>

subsection \<open>The node-port range: regexp and strconv.ParseInt\<close>

definition is_digit :: "char \<Rightarrow> bool" where
  "is_digit c = (48 \<le> (of_char c :: nat) \<and> (of_char c :: nat) \<le> 57)"

text \<open>The value of a string of decimal digits, most significant first.\<close>

definition dec_value :: "string \<Rightarrow> nat" where
  "dec_value s = foldl (\<lambda>acc c. 10 * acc + ((of_char c :: nat) - 48)) 0 s"

text \<open>
  \<open>nodePortValidator\<close> is \<open>regexp.MustCompile(`^([0-9]+)[:-]{1}([0-9]+)$`)\<close>. Go's \<open>$\<close>
  (no multi-line flag) matches only at the end of the text and \<open>[0-9]\<close> only ASCII digits,
  so the text matches exactly when it is a non-empty run of digits, one \<open>:\<close> or \<open>-\<close>, and a
  non-empty run of digits up to the end; the separator is no digit, so the first group is
  the longest digit prefix. \<open>FindStringSubmatch\<close> returns the whole match and the two
  groups, or nil (\<open>None\<close>); \<open>MatchString\<close> says whether there is a match.
\<close>

definition FindStringSubmatch :: "string \<Rightarrow> string list option" where
  "FindStringSubmatch s =
     (let g1 = takeWhile is_digit s; r = dropWhile is_digit s in
      case r of
        [] \<Rightarrow> None
      | c # g2 \<Rightarrow>
          if g1 \<noteq> [] \<and> (c = CHR '':'' \<or> c = CHR ''-'') \<and> g2 \<noteq> [] \<and> list_all is_digit g2
          then Some [s, g1, g2]
          else None)"

definition MatchString :: "string \<Rightarrow> bool" where
  "MatchString s = (FindStringSubmatch s \<noteq> None)"

text \<open>
  \<open>strconv.ParseInt(s, 10, bitSize)\<close>: an optional sign, then decimal digits only (a syntax
  error otherwise); a magnitude of \<open>2 ^ (bitSize - 1)\<close> or more, for a negative number
  more than that, is a range error. The caller treats every error alike.
\<close>

datatype num_error = ErrSyntax | ErrRange

definition ParseInt :: "string \<Rightarrow> nat \<Rightarrow> num_error + int" where
  "ParseInt s bitSize =
     (if s = [] then Inl ErrSyntax
      else
        let neg = (hd s = CHR ''-'');
            s' = (if hd s = CHR ''+'' \<or> hd s = CHR ''-'' then tl s else s)
        in if s' = [] \<or> \<not> list_all is_digit s' then Inl ErrSyntax
           else
             let un = dec_value s'; cutoff = (2 :: nat) ^ (bitSize - 1)
             in if \<not> neg \<and> cutoff \<le> un then Inl ErrRange
                else if neg \<and> cutoff < un then Inl ErrRange
                else Inr (if neg then - int un else int un))"

text \<open>\<open>%d\<close> of \<open>fmt.Sprintf\<close>: the decimal digits, with a minus sign for a negative number.\<close>

fun nat_digits :: "nat \<Rightarrow> string" where
  "nat_digits n =
     (if n < 10 then [char_of (48 + n)] else nat_digits (n div 10) @ [char_of (48 + n mod 10)])"

declare nat_digits.simps [simp del]

definition fmt_d :: "int \<Rightarrow> string" where
  "fmt_d i = (if i < 0 then CHR ''-'' # nat_digits (nat (- i)) else nat_digits (nat i))"

subsection \<open>The configuration, the collaborators and the constructor\<close>

text \<open>The fields of \<open>options.KubeRouterConfig\<close> that the constructor reads.\<close>

record KubeRouterConfig =
  ClusterIPCIDR :: string
  RunRouter :: bool
  HostnameOverride :: string
  NetpolAllowPreCheck :: bool
  NodePortRange :: string
  ExternalIPCIDRs :: "string list"
  cfgMetricsEnabled :: bool
  IPTablesSyncPeriod :: nat

text \<open>
  What the constructor calls outside this package, as parameters: \<open>net.ParseCIDR\<close> (the
  network as text, \<open>None\<close> for an error), \<open>utils.GetPodCidrFromNodeSpec\<close>,
  \<open>utils.GetNodeObject\<close> (the node's name), \<open>utils.GetNodeIP\<close>, whether
  \<open>prometheus.MustRegister\<close> panics (a collector registered before), and whether
  \<open>utils.NewIPSet\<close> and its \<open>Save\<close> succeed.
\<close>

record ctor_env =
  ParseCIDR :: "string \<Rightarrow> string option"
  GetPodCidrFromNodeSpec :: "string \<Rightarrow> string option"
  MustRegisterPanics :: bool
  GetNodeObject :: "string \<Rightarrow> string option"
  GetNodeIP :: "string \<Rightarrow> string option"
  NewIPSetFails :: bool
  IPSetSaveFails :: bool

text \<open>Every way the constructor fails: one constructor per \<open>return nil, err\<close> and the panic.\<close>

datatype ctor_error =
    ErrClusterIPRange
  | ErrPodCidr
  | ErrNodePortRangeFormat
  | ErrNodePortSubmatch
  | ErrFirstPort
  | ErrSecondPort
  | ErrPortOrder
  | ErrExternalIPRange string
  | PanicMustRegister
  | ErrNodeObject
  | ErrNodeIP
  | ErrNewIPSet
  | ErrIPSetSave

text \<open>The loop over \<open>config.ExternalIPCIDRs\<close>: the first unparseable range ends it.\<close>

fun parseExternalIPRanges :: "ctor_env \<Rightarrow> string list \<Rightarrow> string list \<Rightarrow> ctor_error + string list" where
  "parseExternalIPRanges env [] acc = Inr acc"
| "parseExternalIPRanges env (r # rs) acc =
     (case ParseCIDR env r of
        None \<Rightarrow> Inl (ErrExternalIPRange r)
      | Some ipnet \<Rightarrow> parseExternalIPRanges env rs (acc @ [ipnet]))"

text \<open>The zero value \<open>NetworkPolicyController{}\<close> with the channel made.\<close>

definition npc_zero :: NetworkPolicyController where
  "npc_zero =
     \<lparr>nodeIP = [], nodeHostName = [], nodePodIPCIDR = [], serviceClusterIPRange = [],
      serviceExternalIPRanges = [], serviceNodePortRange = [], syncPeriod = 0,
      MetricsEnabled = False, fullSyncRequestChan = [], readyForUpdates = False,
      netpolAllowPreCheck = False\<rparr>"

definition NewNetworkPolicyController ::
    "ctor_env \<Rightarrow> KubeRouterConfig \<Rightarrow> ctor_error + NetworkPolicyController" where
  "NewNetworkPolicyController env config =
     (case ParseCIDR env (ClusterIPCIDR config) of
        None \<Rightarrow> Inl ErrClusterIPRange
      | Some ipnet \<Rightarrow>
     (case (if RunRouter config
            then (case GetPodCidrFromNodeSpec env (HostnameOverride config) of
                    None \<Rightarrow> Inl ErrPodCidr | Some cidr \<Rightarrow> Inr cidr)
            else Inr []) of
        Inl e \<Rightarrow> Inl e
      | Inr cidr \<Rightarrow>
     (if \<not> MatchString (NodePortRange config) then Inl ErrNodePortRangeFormat
      else
     (case FindStringSubmatch (NodePortRange config) of
        None \<Rightarrow> Inl ErrNodePortSubmatch
      | Some matches \<Rightarrow>
     (if length matches \<noteq> 3 then Inl ErrNodePortSubmatch
      else
     (case ParseInt (matches ! 1) 16 of
        Inl _ \<Rightarrow> Inl ErrFirstPort
      | Inr port1 \<Rightarrow>
     (case ParseInt (matches ! 2) 16 of
        Inl _ \<Rightarrow> Inl ErrSecondPort
      | Inr port2 \<Rightarrow>
     (if port2 \<le> port1 then Inl ErrPortOrder
      else
     (case parseExternalIPRanges env (ExternalIPCIDRs config) [] of
        Inl e \<Rightarrow> Inl e
      | Inr externalRanges \<Rightarrow>
     (if cfgMetricsEnabled config \<and> MustRegisterPanics env then Inl PanicMustRegister
      else
     (case GetNodeObject env (HostnameOverride config) of
        None \<Rightarrow> Inl ErrNodeObject
      | Some node \<Rightarrow>
     (case GetNodeIP env node of
        None \<Rightarrow> Inl ErrNodeIP
      | Some ip \<Rightarrow>
     (if NewIPSetFails env then Inl ErrNewIPSet
      else if IPSetSaveFails env then Inl ErrIPSetSave
      else Inr (npc_zero
        \<lparr>serviceClusterIPRange := ipnet,
         nodePodIPCIDR := cidr,
         netpolAllowPreCheck := NetpolAllowPreCheck config,
         serviceNodePortRange := fmt_d port1 @ '':'' @ fmt_d port2,
         serviceExternalIPRanges := externalRanges,
         MetricsEnabled := cfgMetricsEnabled config,
         syncPeriod := IPTablesSyncPeriod config,
         nodeHostName := node,
         nodeIP := ip\<rparr>))))))))))))))"

text \<open>A configuration and collaborators with which everything but the node-port range is fine.\<close>

definition good_env :: ctor_env where
  "good_env =
     \<lparr>ParseCIDR = (\<lambda>s. if s = ''10.96.0.0/12'' then Some ''10.96.0.0/12'' else None),
      GetPodCidrFromNodeSpec = (\<lambda>h. Some ''10.1.2.0/24''),
      MustRegisterPanics = False,
      GetNodeObject = (\<lambda>h. Some ''node-1''),
      GetNodeIP = (\<lambda>n. Some ''192.168.0.10''),
      NewIPSetFails = False,
      IPSetSaveFails = False\<rparr>"

definition config_with_range :: "string \<Rightarrow> KubeRouterConfig" where
  "config_with_range r =
     \<lparr>ClusterIPCIDR = ''10.96.0.0/12'', RunRouter = True, HostnameOverride = [],
      NetpolAllowPreCheck = False, NodePortRange = r, ExternalIPCIDRs = [],
      cfgMetricsEnabled = False, IPTablesSyncPeriod = 300\<rparr>"

section \<open>Name derivation: podFirewallChainName\<close>

text \<open>
  \<open>sha256.Sum256\<close> (FIPS 180-4) on bytes and 32-bit words, and \<open>base32.StdEncoding\<close>
  (RFC 4648, with padding), both written out: the name is computed from them alone.
\<close>

type_synonym byte = "8 word"
type_synonym uint32 = "32 word"

definition rotr :: "nat \<Rightarrow> uint32 \<Rightarrow> uint32" where
  "rotr n x = drop_bit n x OR push_bit (32 - n) x"

definition Ch :: "uint32 \<Rightarrow> uint32 \<Rightarrow> uint32 \<Rightarrow> uint32" where
  "Ch x y z = (x AND y) XOR (NOT x AND z)"

definition Maj :: "uint32 \<Rightarrow> uint32 \<Rightarrow> uint32 \<Rightarrow> uint32" where
  "Maj x y z = (x AND y) XOR (x AND z) XOR (y AND z)"

definition bsig0 :: "uint32 \<Rightarrow> uint32" where
  "bsig0 x = rotr 2 x XOR rotr 13 x XOR rotr 22 x"

definition bsig1 :: "uint32 \<Rightarrow> uint32" where
  "bsig1 x = rotr 6 x XOR rotr 11 x XOR rotr 25 x"

definition ssig0 :: "uint32 \<Rightarrow> uint32" where
  "ssig0 x = rotr 7 x XOR rotr 18 x XOR drop_bit 3 x"

definition ssig1 :: "uint32 \<Rightarrow> uint32" where
  "ssig1 x = rotr 17 x XOR rotr 19 x XOR drop_bit 10 x"

definition sha256_K :: "uint32 list" where
  "sha256_K =
    [0x428A2F98, 0x71374491, 0xB5C0FBCF, 0xE9B5DBA5, 0x3956C25B, 0x59F111F1, 0x923F82A4, 0xAB1C5ED5,
     0xD807AA98, 0x12835B01, 0x243185BE, 0x550C7DC3, 0x72BE5D74, 0x80DEB1FE, 0x9BDC06A7, 0xC19BF174,
     0xE49B69C1, 0xEFBE4786, 0x0FC19DC6, 0x240CA1CC, 0x2DE92C6F, 0x4A7484AA, 0x5CB0A9DC, 0x76F988DA,
     0x983E5152, 0xA831C66D, 0xB00327C8, 0xBF597FC7, 0xC6E00BF3, 0xD5A79147, 0x06CA6351, 0x14292967,
     0x27B70A85, 0x2E1B2138, 0x4D2C6DFC, 0x53380D13, 0x650A7354, 0x766A0ABB, 0x81C2C92E, 0x92722C85,
     0xA2BFE8A1, 0xA81A664B, 0xC24B8B70, 0xC76C51A3, 0xD192E819, 0xD6990624, 0xF40E3585, 0x106AA070,
     0x19A4C116, 0x1E376C08, 0x2748774C, 0x34B0BCB5, 0x391C0CB3, 0x4ED8AA4A, 0x5B9CCA4F, 0x682E6FF3,
     0x748F82EE, 0x78A5636F, 0x84C87814, 0x8CC70208, 0x90BEFFFA, 0xA4506CEB, 0xBEF9A3F7, 0xC67178F2]"

type_synonym sha_state = "uint32 \<times> uint32 \<times> uint32 \<times> uint32 \<times> uint32 \<times> uint32 \<times> uint32 \<times> uint32"

definition sha256_init :: sha_state where
  "sha256_init =
     (0x6A09E667, 0xBB67AE85, 0x3C6EF372, 0xA54FF53A, 0x510E527F, 0x9B05688C, 0x1F83D9AB, 0x5BE0CD19)"

definition be32 :: "uint32 \<Rightarrow> byte list" where
  "be32 w = [ucast (drop_bit 24 w), ucast (drop_bit 16 w), ucast (drop_bit 8 w), ucast w]"

definition word_of_be :: "byte list \<Rightarrow> uint32" where
  "word_of_be bs = foldl (\<lambda>acc b. push_bit 8 acc OR ucast b) 0 bs"

definition be64 :: "nat \<Rightarrow> byte list" where
  "be64 n = map (\<lambda>i. of_nat (n div 2 ^ (8 * (7 - i)))) [0..<8]"

definition sha256_pad :: "byte list \<Rightarrow> byte list" where
  "sha256_pad m =
     m @ [0x80] @ replicate ((119 - length m mod 64) mod 64) 0 @ be64 (8 * length m)"

fun chunks :: "nat \<Rightarrow> 'a list \<Rightarrow> 'a list list" where
  "chunks n xs = (if n = 0 \<or> xs = [] then [] else take n xs # chunks n (drop n xs))"

declare chunks.simps [simp del]

definition schedule :: "uint32 list \<Rightarrow> uint32 list" where
  "schedule w16 =
     foldl (\<lambda>w t. w @ [ssig1 (w ! (t - 2)) + w ! (t - 7) + ssig0 (w ! (t - 15)) + w ! (t - 16)])
       w16 [16..<64]"

definition sha256_round :: "sha_state \<Rightarrow> uint32 \<times> uint32 \<Rightarrow> sha_state" where
  "sha256_round st kw =
     (case st of (a, b, c, d, e, f, g, h) \<Rightarrow>
        let t1 = h + bsig1 e + Ch e f g + fst kw + snd kw;
            t2 = bsig0 a + Maj a b c
        in (t1 + t2, a, b, c, d + t1, e, f, g))"

definition sha256_block :: "sha_state \<Rightarrow> byte list \<Rightarrow> sha_state" where
  "sha256_block st blk =
     (let w = schedule (map word_of_be (chunks 4 blk)) in
      case st of (a, b, c, d, e, f, g, h) \<Rightarrow>
      case foldl sha256_round st (zip sha256_K w) of (a', b', c', d', e', f', g', h') \<Rightarrow>
        (a + a', b + b', c + c', d + d', e + e', f + f', g + g', h + h'))"

definition Sum256 :: "byte list \<Rightarrow> byte list" where
  "Sum256 m =
     (case foldl sha256_block sha256_init (chunks 64 (sha256_pad m)) of
        (a, b, c, d, e, f, g, h) \<Rightarrow> concat (map be32 [a, b, c, d, e, f, g, h]))"

text \<open>The alphabet of \<open>base32.StdEncoding\<close>; five bytes give eight characters.\<close>

definition encodeStd :: string where
  "encodeStd = ''ABCDEFGHIJKLMNOPQRSTUVWXYZ234567''"

definition group_value :: "byte list \<Rightarrow> nat" where
  "group_value g = foldl (\<lambda>acc b. acc * 256 + unat b) 0 g"

definition encode_group :: "byte list \<Rightarrow> string" where
  "encode_group g = map (\<lambda>i. encodeStd ! (group_value g div 2 ^ (35 - 5 * i) mod 32)) [0..<8]"

fun EncodeToString :: "byte list \<Rightarrow> string" where
  "EncodeToString (b0 # b1 # b2 # b3 # b4 # rest) =
     encode_group [b0, b1, b2, b3, b4] @ EncodeToString rest"
| "EncodeToString [] = []"
| "EncodeToString [b0] = take 2 (encode_group [b0, 0, 0, 0, 0]) @ ''======''"
| "EncodeToString [b0, b1] = take 4 (encode_group [b0, b1, 0, 0, 0]) @ ''====''"
| "EncodeToString [b0, b1, b2] = take 5 (encode_group [b0, b1, b2, 0, 0]) @ ''===''"
| "EncodeToString [b0, b1, b2, b3] = take 7 (encode_group [b0, b1, b2, b3, 0]) @ ''=''"

definition bytes_of :: "string \<Rightarrow> byte list" where
  "bytes_of s = map of_char s"

text \<open>
  \<open>podFirewallChainName\<close>: the hash of the concatenation, its base-32 text, and the first
  16 characters after the prefix. The slice \<open>encoded[:16]\<close> panics on a shorter text; the
  text of a 32-byte hash has 56 characters (\<open>length_EncodeToString_ge\<close> below), so \<open>take\<close>
  is the slice.
\<close>

definition podFirewallChainName :: "string \<Rightarrow> string \<Rightarrow> string \<Rightarrow> string" where
  "podFirewallChainName namespace podName version =
     (let hash = Sum256 (bytes_of (namespace @ podName @ version));
          encoded = EncodeToString hash
      in kubePodFirewallChainPrefix @ take 16 encoded)"

section \<open>The host: the filter table and the IP sets\<close>

text \<open>
  The commands of go-iptables and of \<open>utils\<close> (ipset, iptables-save and iptables-restore)
  are outside this package. They are modelled on a small host: the filter table is a list
  of chains, each with the texts of its rules in order (a rule's text is what follows
  \<open>-A chain\<close> and a space), and the IP sets are their names. A command fails when the
  host cannot do it (a missing chain, a rule number out of range, a chain still in use)
  or when the host's \<open>failing\<close> says so, which stands for every other reason.
\<close>

datatype cmd =
    CmdListChains
  | CmdList string
  | CmdDelete string
  | CmdClearChain string
  | CmdDeleteChain string
  | CmdRestore
  | CmdIPSetSave
  | CmdDestroy string

record host =
  filter_table :: "(string \<times> string list) list"
  ipset_names :: "string list"
  failing :: "cmd \<Rightarrow> bool"

text \<open>\<open>ListChains("filter")\<close>: the names of the chains, in the table's order.\<close>

definition ipt_ListChains :: "host \<Rightarrow> string list option" where
  "ipt_ListChains h =
     (if failing h CmdListChains then None else Some (map fst (filter_table h)))"

text \<open>
  \<open>List("filter", chain)\<close> is \<open>iptables -S chain\<close>: for a custom chain the line \<open>-N chain\<close>
  and then one line \<open>-A chain rule\<close> per rule, so the rule with number \<open>k\<close> is at index \<open>k\<close>.
\<close>

definition ipt_List :: "host \<Rightarrow> string \<Rightarrow> string list option" where
  "ipt_List h chain =
     (if failing h (CmdList chain) then None
      else case map_of (filter_table h) chain of
             None \<Rightarrow> None
           | Some rules \<Rightarrow> Some ((''-N '' @ chain) # map (\<lambda>r. ''-A '' @ chain @ '' '' @ r) rules))"

text \<open>\<open>Delete("filter", chain, n)\<close> with a rule number: rule \<open>n\<close>, counted from 1, goes.\<close>

definition ipt_Delete :: "host \<Rightarrow> string \<Rightarrow> int \<Rightarrow> host option" where
  "ipt_Delete h chain n =
     (if failing h (CmdDelete chain) then None
      else case map_of (filter_table h) chain of
             None \<Rightarrow> None
           | Some rules \<Rightarrow>
               if 1 \<le> n \<and> n \<le> int (length rules)
               then Some (h\<lparr>filter_table :=
                      AList.update chain (take (nat n - 1) rules @ drop (nat n) rules)
                        (filter_table h)\<rparr>)
               else None)"

text \<open>\<open>ClearChain\<close> flushes the chain, and creates it when it does not exist.\<close>

definition ipt_ClearChain :: "host \<Rightarrow> string \<Rightarrow> host option" where
  "ipt_ClearChain h chain =
     (if failing h (CmdClearChain chain) then None
      else Some (h\<lparr>filter_table := AList.update chain [] (filter_table h)\<rparr>))"

text \<open>A rule jumps to a chain when its text has \<open>-j\<close> and the chain's name as two words.\<close>

definition jumps_to :: "string \<Rightarrow> string \<Rightarrow> bool" where
  "jumps_to rule chain = strings_Contains ('' '' @ rule @ '' '') ('' -j '' @ chain @ '' '')"

definition referenced :: "(string \<times> string list) list \<Rightarrow> string \<Rightarrow> bool" where
  "referenced tbl chain = list_ex (\<lambda>entry. list_ex (\<lambda>r. jumps_to r chain) (snd entry)) tbl"

text \<open>\<open>DeleteChain\<close>: the chain must exist, be empty and have no rule jumping to it.\<close>

definition ipt_DeleteChain :: "host \<Rightarrow> string \<Rightarrow> host option" where
  "ipt_DeleteChain h chain =
     (if failing h (CmdDeleteChain chain) \<or> map_of (filter_table h) chain \<noteq> Some []
         \<or> referenced (filter_table h) chain
      then None
      else Some (h\<lparr>filter_table := AList.delete chain (filter_table h)\<rparr>))"

text \<open>\<open>Destroy\<close> of one IP set.\<close>

definition ipset_Destroy :: "host \<Rightarrow> string \<Rightarrow> host option" where
  "ipset_Destroy h name =
     (if failing h (CmdDestroy name) \<or> name \<notin> set (ipset_names h) then None
      else Some (h\<lparr>ipset_names := removeAll name (ipset_names h)\<rparr>))"

subsection \<open>iptables-restore\<close>

text \<open>
  One line of a table in iptables-save format, applied to the table built so far. A line
  \<open>:chain ...\<close> declares a chain; \<open>-A chain rule\<close> appends a rule; \<open>-I chain n rule\<close> puts the
  rule at position \<open>n\<close> (counted from 1; position 1 when no number is given), so \<open>-I chain 1\<close>
  prepends; \<open>*filter\<close>, \<open>COMMIT\<close>, comments and empty lines change nothing. A rule for a chain
  that is not declared, a position out of range and any other line make the restore fail.
\<close>

definition space :: char where
  "space = CHR '' ''"

definition restore_line ::
    "string \<Rightarrow> (string \<times> string list) list \<Rightarrow> (string \<times> string list) list option" where
  "restore_line l tbl =
     (if l = [] \<or> hd l = CHR ''#'' \<or> hd l = CHR ''*'' \<or> l = ''COMMIT'' then Some tbl
      else if hd l = CHR '':'' then
        (let chain = takeWhile (\<lambda>c. c \<noteq> space) (tl l)
         in Some (if map_of tbl chain = None then tbl @ [(chain, [])] else tbl))
      else if take 3 l = ''-A '' then
        (let r = drop 3 l;
             chain = takeWhile (\<lambda>c. c \<noteq> space) r;
             rule = drop (length chain + 1) r
         in case map_of tbl chain of
              None \<Rightarrow> None
            | Some rules \<Rightarrow> Some (AList.update chain (rules @ [rule]) tbl))
      else if take 3 l = ''-I '' then
        (let r = drop 3 l;
             chain = takeWhile (\<lambda>c. c \<noteq> space) r;
             r2 = drop (length chain + 1) r;
             pos = takeWhile (\<lambda>c. c \<noteq> space) r2;
             numbered = (pos \<noteq> [] \<and> list_all is_digit pos);
             n = (if numbered then dec_value pos else 1);
             rule = (if numbered then drop (length pos + 1) r2 else r2)
         in case map_of tbl chain of
              None \<Rightarrow> None
            | Some rules \<Rightarrow>
                if 1 \<le> n \<and> n \<le> length rules + 1
                then Some (AList.update chain (take (n - 1) rules @ [rule] @ drop (n - 1) rules) tbl)
                else None)
      else None)"

fun restore_lines ::
    "string list \<Rightarrow> (string \<times> string list) list \<Rightarrow> (string \<times> string list) list option" where
  "restore_lines [] tbl = Some tbl"
| "restore_lines (l # ls) tbl =
     (case restore_line l tbl of None \<Rightarrow> None | Some tbl' \<Rightarrow> restore_lines ls tbl')"

text \<open>
  \<open>utils.Restore("filter", data)\<close>: the table is replaced by the one the data describes, or,
  when the restore fails, left as it was.
\<close>

definition utils_Restore :: "host \<Rightarrow> string \<Rightarrow> host option" where
  "utils_Restore h data =
     (if failing h CmdRestore then None
      else case restore_lines (strings_Split data) [] of
             None \<Rightarrow> None
           | Some tbl \<Rightarrow> Some (h\<lparr>filter_table := tbl\<rparr>))"

section \<open>The garbage collector: cleanupStaleRules\<close>

text \<open>
  The loop over \<open>chains\<close> (lines 531 to 542): one pass that appends to both cleanup lists.
  An active map is a Go \<open>map[string]bool\<close>; the loop only asks whether the key is present.
\<close>

fun classifyChains ::
    "(string \<rightharpoonup> bool) \<Rightarrow> (string \<rightharpoonup> bool) \<Rightarrow> string list \<Rightarrow> string list \<times> string list
     \<Rightarrow> string list \<times> string list" where
  "classifyChains activePolicyChains activePodFwChains [] acc = acc"
| "classifyChains activePolicyChains activePodFwChains (chain # rest) acc =
     (let cleanupPolicyChains =
            (if strings_HasPrefix chain kubeNetworkPolicyChainPrefix
                \<and> activePolicyChains chain = None
             then fst acc @ [chain] else fst acc);
          cleanupPodFwChains =
            (if strings_HasPrefix chain kubePodFirewallChainPrefix
                \<and> activePodFwChains chain = None
             then snd acc @ [chain] else snd acc)
      in classifyChains activePolicyChains activePodFwChains rest
           (cleanupPolicyChains, cleanupPodFwChains))"

text \<open>The loop over \<open>ipsets.Sets\<close> (lines 543 to 550), on the sets' names.\<close>

fun classifySets :: "(string \<rightharpoonup> bool) \<Rightarrow> string list \<Rightarrow> string list \<Rightarrow> string list" where
  "classifySets activePolicyIPSets [] acc = acc"
| "classifySets activePolicyIPSets (name # sets) acc =
     classifySets activePolicyIPSets sets
       (if (strings_HasPrefix name kubeSourceIPSetPrefix
              \<or> strings_HasPrefix name kubeDestinationIPSetPrefix)
           \<and> activePolicyIPSets name = None
        then acc @ [name] else acc)"

text \<open>
  Whether the rebuild skips a line (lines 585 to 600): it contains the name of a stale
  pod-firewall chain or of a stale policy chain, contains \<open>COMMIT\<close>, or starts with \<open>#\<close> and
  a space. The two inner loops stop at the first name found.
\<close>

definition skipRule :: "string list \<Rightarrow> string list \<Rightarrow> string \<Rightarrow> bool" where
  "skipRule cleanupPodFwChains cleanupPolicyChains rule =
     (list_ex (strings_Contains rule) cleanupPodFwChains
      \<or> list_ex (strings_Contains rule) cleanupPolicyChains
      \<or> strings_Contains rule ''COMMIT''
      \<or> strings_HasPrefix rule ''# '')"

text \<open>The loop over the lines (584 to 610), writing to the buffers \<open>newChains\<close> and \<open>newRules\<close>.\<close>

fun rebuildLoop :: "string list \<Rightarrow> string list \<Rightarrow> string list \<Rightarrow> string \<times> string \<Rightarrow> string \<times> string" where
  "rebuildLoop cleanupPodFwChains cleanupPolicyChains [] bufs = bufs"
| "rebuildLoop cleanupPodFwChains cleanupPolicyChains (rule # rules) bufs =
     (if skipRule cleanupPodFwChains cleanupPolicyChains rule
      then rebuildLoop cleanupPodFwChains cleanupPolicyChains rules bufs
      else
        let newChains =
              (if strings_HasPrefix rule '':'' then fst bufs @ rule @ '' - [0:0]'' @ [nl]
               else fst bufs);
            newRules =
              (if strings_HasPrefix rule ''-'' then snd bufs @ rule @ [nl] else snd bufs)
        in rebuildLoop cleanupPodFwChains cleanupPolicyChains rules (newChains, newRules))"

text \<open>Lines 579 to 614: split the dump, drop one trailing empty piece, loop, and compose.\<close>

definition filterTableLines :: "string \<Rightarrow> string list" where
  "filterTableLines currentFilterTable =
     (let rules = strings_Split currentFilterTable
      in if 0 < length rules \<and> last rules = [] then butlast rules else rules)"

definition desiredFilterTable :: "string list \<Rightarrow> string list \<Rightarrow> string \<Rightarrow> string" where
  "desiredFilterTable cleanupPodFwChains cleanupPolicyChains currentFilterTable =
     (let bufs = rebuildLoop cleanupPodFwChains cleanupPolicyChains
                   (filterTableLines currentFilterTable) ([], [])
      in ''*filter'' @ [nl] @ fst bufs @ snd bufs @ ''COMMIT'' @ [nl])"


subsection \<open>Stale references, the restore and the stale sets\<close>

datatype gc_error =
    FatalIPSetSave
  | ErrListChains
  | ErrListRules string
  | ErrDeleteRule string string
  | ErrRestore
  | ErrDestroy string

text \<open>
  Lines 565 to 573: the loop over the listing of one top-level chain. A line that contains
  the stale chain's name is deleted by its number, the index less the deletions so far;
  the first failing delete ends the collector. The host reached so far is returned beside
  the error.
\<close>

fun gcDeleteLoop ::
    "string \<Rightarrow> string \<Rightarrow> (nat \<times> string) list \<Rightarrow> int \<Rightarrow> host \<Rightarrow> gc_error option \<times> host" where
  "gcDeleteLoop egressChain podFwChain [] realRuleNo h = (None, h)"
| "gcDeleteLoop egressChain podFwChain (ir # rest) realRuleNo h =
     (if strings_Contains (snd ir) podFwChain
      then (case ipt_Delete h egressChain (int (fst ir) - realRuleNo) of
              None \<Rightarrow> (Some (ErrDeleteRule (snd ir) egressChain), h)
            | Some h' \<Rightarrow> gcDeleteLoop egressChain podFwChain rest (realRuleNo + 1) h')
      else gcDeleteLoop egressChain podFwChain rest realRuleNo h)"

text \<open>Lines 557 to 574: the three top-level chains, for one stale pod-firewall chain.\<close>

fun gcPrimaryChains :: "string \<Rightarrow> string list \<Rightarrow> host \<Rightarrow> gc_error option \<times> host" where
  "gcPrimaryChains podFwChain [] h = (None, h)"
| "gcPrimaryChains podFwChain (egressChain # rest) h =
     (case ipt_List h egressChain of
        None \<Rightarrow> (Some (ErrListRules egressChain), h)
      | Some forwardChainRules \<Rightarrow>
          (case gcDeleteLoop egressChain podFwChain (enumerate 0 forwardChainRules) 0 h of
             (Some e, h') \<Rightarrow> (Some e, h')
           | (None, h') \<Rightarrow> gcPrimaryChains podFwChain rest h'))"

text \<open>Lines 554 to 575: every stale pod-firewall chain in turn.\<close>

fun gcStaleReferences :: "string list \<Rightarrow> host \<Rightarrow> gc_error option \<times> host" where
  "gcStaleReferences [] h = (None, h)"
| "gcStaleReferences (podFwChain # rest) h =
     (case gcPrimaryChains podFwChain
             [kubeInputChainName, kubeForwardChainName, kubeOutputChainName] h of
        (Some e, h') \<Rightarrow> (Some e, h')
      | (None, h') \<Rightarrow> gcStaleReferences rest h')"

text \<open>Lines 622 to 627: the stale sets are destroyed in order, up to the first failure.\<close>

fun destroySets ::
    "string list \<Rightarrow> host \<Rightarrow> string list \<Rightarrow> gc_error option \<times> host \<times> string list" where
  "destroySets [] h destroyedSoFar = (None, h, destroyedSoFar)"
| "destroySets (name # rest) h destroyedSoFar =
     (case ipset_Destroy h name of
        None \<Rightarrow> (Some (ErrDestroy name), h, destroyedSoFar)
      | Some h' \<Rightarrow> destroySets rest h' (destroyedSoFar @ [name]))"

text \<open>
  What one run of the collector did: the error it returned, if any; the three cleanup lists
  (empty when the run ended before they were computed); the table it handed to the
  restore; the sets it destroyed; and the host it left.
\<close>

record gc_outcome =
  gc_err :: "gc_error option"
  stalePolicyChains :: "string list"
  stalePodFwChains :: "string list"
  stalePolicyIPSets :: "string list"
  restored :: "string option"
  destroyed :: "string list"
  host_after :: host

text \<open>
  \<open>cleanupStaleRules\<close>. The three defaults are written into the active maps first. A failure
  of the set handler's \<open>Save\<close> is \<open>glog.Fatalf\<close>: the process ends.
\<close>

definition cleanupStaleRules ::
    "host \<Rightarrow> string \<Rightarrow> (string \<rightharpoonup> bool) \<Rightarrow> (string \<rightharpoonup> bool) \<Rightarrow> (string \<rightharpoonup> bool)
     \<Rightarrow> gc_outcome" where
  "cleanupStaleRules h currentFilterTable activePolicyChains activePodFwChains activePolicyIPSets =
     (let activePolicyChains' =
            activePolicyChains(kubeIngressNetpolChain \<mapsto> True, kubeEgressNetpolChain \<mapsto> True);
          activePodFwChains' = activePodFwChains(KubeDefaultPodFWChain \<mapsto> True);
          nothing = \<lparr>gc_err = None, stalePolicyChains = [], stalePodFwChains = [],
                     stalePolicyIPSets = [], restored = None, destroyed = [], host_after = h\<rparr>
      in if failing h CmdIPSetSave then nothing\<lparr>gc_err := Some FatalIPSetSave\<rparr>
         else case ipt_ListChains h of
           None \<Rightarrow> nothing\<lparr>gc_err := Some ErrListChains\<rparr>
         | Some chainNames \<Rightarrow>
             let cls = classifyChains activePolicyChains' activePodFwChains' chainNames ([], []);
                 cleanupPolicyIPSets = classifySets activePolicyIPSets (ipset_names h) [];
                 classified = nothing\<lparr>stalePolicyChains := fst cls, stalePodFwChains := snd cls,
                                       stalePolicyIPSets := cleanupPolicyIPSets\<rparr>
             in case gcStaleReferences (snd cls) h of
                  (Some e, h1) \<Rightarrow> classified\<lparr>gc_err := Some e, host_after := h1\<rparr>
                | (None, h1) \<Rightarrow>
                    let desired = desiredFilterTable (snd cls) (fst cls) currentFilterTable
                    in case utils_Restore h1 desired of
                         None \<Rightarrow> classified\<lparr>gc_err := Some ErrRestore, restored := Some desired,
                                             host_after := h1\<rparr>
                       | Some h2 \<Rightarrow>
                           (case destroySets cleanupPolicyIPSets h2 [] of
                              (e, h3, destroyedSets) \<Rightarrow>
                                classified\<lparr>gc_err := e, restored := Some desired,
                                            destroyed := destroyedSets, host_after := h3\<rparr>))"

section \<open>Pod firewall chains: syncPodFirewall\<close>

text \<open>
  \<open>podInfo\<close> and the fields of \<open>networkPolicyInfo\<close> that the pod firewall reads
  (\<open>targetPods\<close> is keyed by pod IP). The functions below append to the buffer
  \<open>currentFilterTable\<close>; each returns the buffer, since its error result is always nil.
\<close>

record podInfo =
  pod_ip :: string
  pod_name :: string
  pod_namespace :: string
  pod_labels :: "string \<rightharpoonup> string"























subsection \<open>What the restore does with the lines written\<close>

text \<open>
  A rule line of the pod firewall, by what the restore does with it: \<open>-I chain 1 rule\<close> puts
  the rule first in the chain, \<open>-A chain rule\<close> last. In a line joined from \<open>args\<close>, every
  argument before the final newline is followed by one space.
\<close>

datatype rule_op = Insert1 string string | Append string string

fun render :: "rule_op \<Rightarrow> string" where
  "render (Insert1 chain rule) = ''-I '' @ chain @ '' 1 '' @ rule"
| "render (Append chain rule) = ''-A '' @ chain @ '' '' @ rule"


fun inserted :: "string \<Rightarrow> rule_op list \<Rightarrow> string list" where
  "inserted c [] = []"
| "inserted c (Insert1 chain rule # ops) = (if chain = c then rule # inserted c ops else inserted c ops)"
| "inserted c (Append chain rule # ops) = inserted c ops"


definition written :: "rule_op list \<Rightarrow> string" where
  "written ops = concat (map (\<lambda>op. render op @ [nl]) ops)"















section \<open>Network policy chains affected by a pod event: syncAffectedNetworkPolicyChains\<close>

text \<open>
  The fields of \<open>networking.NetworkPolicy\<close> that the function reads. A label selector is
  kept as its list of required labels; what it matches is decided by the API machinery
  (\<open>LabelSelectorAsSelector\<close>, whose error the source drops, and \<open>Matches\<close>), a
  collaborator below. Of a peer's \<open>IPBlock\<close> only whether it is nil is read. An ingress
  rule is kept as its list \<open>From\<close>, an egress rule as its list \<open>To\<close>: the function reads
  nothing else of a rule.
\<close>

type_synonym LabelSelector = "(string \<times> string) list"

record NetworkPolicyPeer =
  peer_PodSelector :: "LabelSelector option"
  peer_NamespaceSelector :: "LabelSelector option"
  peer_IPBlock :: "string option"

record NetworkPolicy =
  policy_Namespace :: string
  policy_Name :: string
  spec_PodSelector :: LabelSelector
  spec_Ingress :: "NetworkPolicyPeer list list"
  spec_Egress :: "NetworkPolicyPeer list list"

text \<open>
  The four functions that name an IP set are outside the source: a name is kept as the
  call that makes it. The set handler's state is the list of the calls made on it, in
  order. An error of \<open>Refresh\<close> is logged and changes nothing in the control flow.
\<close>

datatype ipset_name =
    policyDestinationPodIPSetName string string
  | policySourcePodIPSetName string string
  | policyIndexedSourcePodIPSetName string string nat
  | policyIndexedDestinationPodIPSetName string string nat

datatype ipset_call = Create ipset_name | Refresh ipset_name "string list"

text \<open>
  The collaborators: the policy lister (an object that is not a policy is \<open>None\<close>), the
  selector match, the pod lister by namespace and labels, the evaluation of a peer
  (\<open>evalPodPeer\<close>, which returns pods and an error), the namespace lister (\<open>None\<close> when
  \<open>Get\<close> gives no object) and the error of \<open>Create\<close> for a set, if any. An error is its
  message.
\<close>

record sync_env =
  npLister_List :: "NetworkPolicy option list"
  Matches :: "LabelSelector \<Rightarrow> (string \<rightharpoonup> string) \<Rightarrow> bool"
  listPodsByNamespaceAndLabels :: "string \<Rightarrow> LabelSelector \<Rightarrow> string + Pod list"
  evalPodPeer :: "NetworkPolicy \<Rightarrow> NetworkPolicyPeer \<Rightarrow> Pod list \<times> string option"
  namespaceLister_Get :: "string \<Rightarrow> (string \<rightharpoonup> string) option"
  Create_error :: "ipset_name \<Rightarrow> string option"

text \<open>
  How a run ends: it returns its error value (\<open>None\<close> is nil), or it panics on a nil
  pointer (a listed object that is not a policy is dereferenced on line 194, before \<open>ok\<close>
  is read, and a namespace that \<open>Get\<close> did not find on lines 258 and 307).
\<close>

datatype sync_result = Returned "string option" | Panicked

text \<open>The addresses collected from a list of pods (lines 205 to 210, 268 to 273, 317 to 322).\<close>

definition podIPs :: "Pod list \<Rightarrow> string list" where
  "podIPs pods = map PodIP (filter (\<lambda>p. PodIP p \<noteq> []) pods)"

text \<open>Lines 245 to 259 (and 294 to 308): whether the peer selects the pod; \<open>None\<close> is the panic.\<close>

definition peerSelects :: "sync_env \<Rightarrow> podInfo \<Rightarrow> NetworkPolicyPeer \<Rightarrow> bool option" where
  "peerSelects env pod peer =
     (let matchesPodSelector =
            (case peer_PodSelector peer of
               None \<Rightarrow> True
             | Some fromPodSelector \<Rightarrow> Matches env fromPodSelector (pod_labels pod))
      in case peer_NamespaceSelector peer of
           None \<Rightarrow> Some (True \<and> matchesPodSelector)
         | Some namespaceSelector \<Rightarrow>
             (case namespaceLister_Get env (pod_namespace pod) of
                None \<Rightarrow> None
              | Some namespaceLabels \<Rightarrow>
                  Some (Matches env namespaceSelector namespaceLabels \<and> matchesPodSelector)))"

text \<open>
  The loop over the peers of one rule (lines 241 to 283 for an ingress rule, 290 to 332 for
  an egress rule: the same statements but for the set's name). The result \<open>None\<close> means
  that the loop ran to its end. Lines 264 to 266 and 313 to 315 are written as they stand:
  \<open>if err == nil { return err }\<close>.
\<close>

fun syncPeers ::
    "sync_env \<Rightarrow> podInfo \<Rightarrow> NetworkPolicy \<Rightarrow> ipset_name \<Rightarrow> NetworkPolicyPeer list
     \<Rightarrow> ipset_call list \<Rightarrow> sync_result option \<times> ipset_call list" where
  "syncPeers env pod policy setName [] calls = (None, calls)"
| "syncPeers env pod policy setName (peer # peers) calls =
     (if peer_PodSelector peer = None \<and> peer_NamespaceSelector peer = None
         \<and> peer_IPBlock peer \<noteq> None
      then syncPeers env pod policy setName peers calls
      else case peerSelects env pod peer of
             None \<Rightarrow> (Some Panicked, calls)
           | Some False \<Rightarrow> syncPeers env pod policy setName peers calls
           | Some True \<Rightarrow>
               (case evalPodPeer env policy peer of
                  (peerPods, err) \<Rightarrow>
                    if err = None then (Some (Returned err), calls)
                    else
                      (case Create_error env setName of
                         Some e \<Rightarrow> (Some (Returned (Some (''failed to create ipset: '' @ e))), calls)
                       | None \<Rightarrow>
                           syncPeers env pod policy setName peers
                             (calls @ [Create setName, Refresh setName (podIPs peerPods)]))))"

text \<open>
  The loops over the rules (lines 237 to 284 and 286 to 333), each rule with its index; a
  rule without peers is passed over.
\<close>

fun syncRules ::
    "sync_env \<Rightarrow> podInfo \<Rightarrow> NetworkPolicy \<Rightarrow> (nat \<Rightarrow> ipset_name)
     \<Rightarrow> (nat \<times> NetworkPolicyPeer list) list
     \<Rightarrow> ipset_call list \<Rightarrow> sync_result option \<times> ipset_call list" where
  "syncRules env pod policy setName [] calls = (None, calls)"
| "syncRules env pod policy setName (rule # rules) calls =
     (if length (snd rule) = 0 then syncRules env pod policy setName rules calls
      else case syncPeers env pod policy (setName (fst rule)) (snd rule) calls of
             (Some r, calls') \<Rightarrow> (Some r, calls')
           | (None, calls') \<Rightarrow> syncRules env pod policy setName rules calls')"

text \<open>
  Lines 199 to 235: when the policy is in the pod's namespace and targets the pod, the
  sets of the policy's target pods are created and refreshed.
\<close>

definition syncTargetSets ::
    "sync_env \<Rightarrow> podInfo \<Rightarrow> NetworkPolicy \<Rightarrow> ipset_call list
     \<Rightarrow> sync_result option \<times> ipset_call list" where
  "syncTargetSets env pod policy calls =
     (if policy_Namespace policy = pod_namespace pod
         \<and> Matches env (spec_PodSelector policy) (pod_labels pod)
      then
        (case listPodsByNamespaceAndLabels env (policy_Namespace policy) (spec_PodSelector policy) of
           Inl err \<Rightarrow> (Some (Returned (Some err)), calls)
         | Inr matchingPods \<Rightarrow>
             (let matchingPodIps = podIPs matchingPods;
                  targetDestPodIPSetName =
                    policyDestinationPodIPSetName (policy_Namespace policy) (policy_Name policy);
                  targetSourcePodIPSetName =
                    policySourcePodIPSetName (policy_Namespace policy) (policy_Name policy);
                  ingress =
                    (if 0 < length (spec_Ingress policy)
                     then (case Create_error env targetDestPodIPSetName of
                             Some e \<Rightarrow> (Some (Returned (Some (''failed to create ipset: '' @ e))), calls)
                           | None \<Rightarrow>
                               (None, calls @ [Create targetDestPodIPSetName,
                                               Refresh targetDestPodIPSetName matchingPodIps]))
                     else (None, calls))
              in case ingress of
                   (Some r, calls') \<Rightarrow> (Some r, calls')
                 | (None, calls') \<Rightarrow>
                     if 0 < length (spec_Egress policy)
                     then (case Create_error env targetSourcePodIPSetName of
                             Some e \<Rightarrow> (Some (Returned (Some (''failed to create ipset: '' @ e))), calls')
                           | None \<Rightarrow>
                               (None, calls' @ [Create targetSourcePodIPSetName,
                                                Refresh targetSourcePodIPSetName matchingPodIps]))
                     else (None, calls')))
      else (None, calls))"

text \<open>The loop over the listed policies (lines 192 to 334), and the function (line 335).\<close>

fun syncPolicies ::
    "sync_env \<Rightarrow> podInfo \<Rightarrow> NetworkPolicy option list \<Rightarrow> ipset_call list
     \<Rightarrow> sync_result \<times> ipset_call list" where
  "syncPolicies env pod [] calls = (Returned None, calls)"
| "syncPolicies env pod (policyObj # rest) calls =
     (case policyObj of
        None \<Rightarrow> (Panicked, calls)
      | Some policy \<Rightarrow>
          (case syncTargetSets env pod policy calls of
             (Some r, calls1) \<Rightarrow> (r, calls1)
           | (None, calls1) \<Rightarrow>
               (case syncRules env pod policy
                       (policyIndexedSourcePodIPSetName (policy_Namespace policy) (policy_Name policy))
                       (enumerate 0 (spec_Ingress policy)) calls1 of
                  (Some r, calls2) \<Rightarrow> (r, calls2)
                | (None, calls2) \<Rightarrow>
                    (case syncRules env pod policy
                            (policyIndexedDestinationPodIPSetName (policy_Namespace policy)
                               (policy_Name policy))
                            (enumerate 0 (spec_Egress policy)) calls2 of
                       (Some r, calls3) \<Rightarrow> (r, calls3)
                     | (None, calls3) \<Rightarrow> syncPolicies env pod rest calls3))))"

definition syncAffectedNetworkPolicyChains ::
    "sync_env \<Rightarrow> podInfo \<Rightarrow> ipset_call list \<Rightarrow> sync_result \<times> ipset_call list" where
  "syncAffectedNetworkPolicyChains env pod calls = syncPolicies env pod (npLister_List env) calls"

section \<open>Cleanup\<close>

text \<open>
  What \<open>Cleanup\<close> writes to the error log, and whether it reached its last line (the
  message that the configuration was cleaned).
\<close>

datatype cleanup_event =
    FailedListRules string
  | FailedDeleteRule string
  | FailedListChains
  | FailedCleanupChain string
  | FailedCleanupIPSets
  | Cleaned

text \<open>
  Lines 650 to 658 and 669 to 677: the loop over the listing of a top-level chain. A line
  that contains the pod-firewall prefix is deleted by its number, the index less the
  count so far; a failing delete is logged, counted, and the loop goes on.
\<close>

fun cleanupDeleteLoop ::
    "string \<Rightarrow> (nat \<times> string) list \<Rightarrow> int \<Rightarrow> host \<times> cleanup_event list
     \<Rightarrow> host \<times> cleanup_event list" where
  "cleanupDeleteLoop chain [] realRuleNo st = st"
| "cleanupDeleteLoop chain (ir # rest) realRuleNo st =
     (if strings_Contains (snd ir) kubePodFirewallChainPrefix
      then cleanupDeleteLoop chain rest (realRuleNo + 1)
             (case ipt_Delete (fst st) chain (int (fst ir) - realRuleNo) of
                None \<Rightarrow> (fst st, snd st @ [FailedDeleteRule chain])
              | Some h' \<Rightarrow> (h', snd st))
      else cleanupDeleteLoop chain rest realRuleNo st)"

text \<open>
  Lines 685 to 698 and 706 to 719: every chain with the prefix is flushed and deleted; the
  first failure is logged and ends \<open>Cleanup\<close>.
\<close>

fun cleanupChains :: "string \<Rightarrow> string list \<Rightarrow> host \<Rightarrow> cleanup_event option \<times> host" where
  "cleanupChains chainPrefix [] h = (None, h)"
| "cleanupChains chainPrefix (chain # rest) h =
     (if strings_HasPrefix chain chainPrefix
      then (case ipt_ClearChain h chain of
              None \<Rightarrow> (Some (FailedCleanupChain chain), h)
            | Some h1 \<Rightarrow>
                (case ipt_DeleteChain h1 chain of
                   None \<Rightarrow> (Some (FailedCleanupChain chain), h1)
                 | Some h2 \<Rightarrow> cleanupChains chainPrefix rest h2))
      else cleanupChains chainPrefix rest h)"

text \<open>
  Modelled from the spec: \<open>utils.NewIPSet\<close>, \<open>Save\<close> and \<open>DestroyAllWithin\<close> are outside the
  source; by the specification the cleanup removes every IP set under the engine's
  prefixes. A failure is logged and \<open>Cleanup\<close> goes on.
\<close>

definition DestroyAllWithin :: "host \<Rightarrow> host option" where
  "DestroyAllWithin h =
     (if failing h CmdIPSetSave then None
      else Some (h\<lparr>ipset_names :=
             filter (\<lambda>name. \<not> (strings_HasPrefix name kubeSourceIPSetPrefix
                                \<or> strings_HasPrefix name kubeDestinationIPSetPrefix))
               (ipset_names h)\<rparr>))"

text \<open>
  \<open>Cleanup\<close> (lines 632 to 735): the host it leaves and what it logged; \<open>iptables.New\<close> is
  taken to succeed. No statement of it names the chain \<open>KUBE-ROUTER-INPUT\<close>, a built-in
  chain, or the deletion of a top-level chain.
\<close>

definition Cleanup :: "host \<Rightarrow> host \<times> cleanup_event list" where
  "Cleanup h =
     (case ipt_List h kubeForwardChainName of
        None \<Rightarrow> (h, [FailedListRules kubeForwardChainName])
      | Some forwardChainRules \<Rightarrow>
          (let st1 = cleanupDeleteLoop kubeForwardChainName (enumerate 0 forwardChainRules) 0 (h, [])
           in case ipt_List (fst st1) kubeOutputChainName of
                None \<Rightarrow> (fst st1, snd st1 @ [FailedListRules kubeOutputChainName])
              | Some outputChainRules \<Rightarrow>
                  (let st2 = cleanupDeleteLoop kubeOutputChainName (enumerate 0 outputChainRules) 0 st1
                   in case ipt_ListChains (fst st2) of
                        None \<Rightarrow> (fst st2, snd st2 @ [FailedListChains])
                      | Some chainNames \<Rightarrow>
                          (case cleanupChains kubePodFirewallChainPrefix chainNames (fst st2) of
                             (Some e, h3) \<Rightarrow> (h3, snd st2 @ [e])
                           | (None, h3) \<Rightarrow>
                               (case ipt_ListChains h3 of
                                  None \<Rightarrow> (h3, snd st2 @ [FailedListChains])
                                | Some chainNames' \<Rightarrow>
                                    (case cleanupChains kubeNetworkPolicyChainPrefix chainNames' h3 of
                                       (Some e, h4) \<Rightarrow> (h4, snd st2 @ [e])
                                     | (None, h4) \<Rightarrow>
                                         (case DestroyAllWithin h4 of
                                            None \<Rightarrow> (h4, snd st2 @ [FailedCleanupIPSets, Cleaned])
                                          | Some h5 \<Rightarrow> (h5, snd st2 @ [Cleaned]))))))))"

section \<open>Concrete hosts, pods and policies\<close>

text \<open>
  A host that the engine shares with another owner, and its dump in the format of
  iptables-save: the three top-level chains, the default pod firewall chain, the chain
  that an earlier sync made for the pod \<open>web-0\<close> with the jump to it, a chain
  \<open>DOCKER-COMMIT\<close> of the other owner, and two IP sets. \<open>shared_host_1\<close> is that host
  without the jump.
\<close>

definition shared_host :: host where
  "shared_host =
     \<lparr>filter_table =
        [(''KUBE-ROUTER-INPUT'', []),
         (''KUBE-ROUTER-FORWARD'', [''-d 10.1.2.5 -j KUBE-POD-FW-NNVPOOBNORJ6FTUI'']),
         (''KUBE-ROUTER-OUTPUT'', []),
         (''KUBE-POD-FW-DEFAULT'', [''-j REJECT'']),
         (''KUBE-POD-FW-NNVPOOBNORJ6FTUI'', []),
         (''DOCKER-COMMIT'', [''-j RETURN''])],
      ipset_names = [''KUBE-SRC-OLD'', ''other''],
      failing = (\<lambda>c. False)\<rparr>"

definition shared_dump :: string where
  "shared_dump =
     ''*filter'' @ [nl]
     @ '':KUBE-ROUTER-INPUT - [0:0]'' @ [nl] @ '':KUBE-ROUTER-FORWARD - [0:0]'' @ [nl]
     @ '':KUBE-ROUTER-OUTPUT - [0:0]'' @ [nl] @ '':KUBE-POD-FW-DEFAULT - [0:0]'' @ [nl]
     @ '':KUBE-POD-FW-NNVPOOBNORJ6FTUI - [0:0]'' @ [nl] @ '':DOCKER-COMMIT - [0:0]'' @ [nl]
     @ ''-A KUBE-ROUTER-FORWARD -d 10.1.2.5 -j KUBE-POD-FW-NNVPOOBNORJ6FTUI'' @ [nl]
     @ ''-A KUBE-POD-FW-DEFAULT -j REJECT'' @ [nl]
     @ ''-A DOCKER-COMMIT -j RETURN'' @ [nl]
     @ ''COMMIT'' @ [nl]"

definition shared_host_1 :: host where
  "shared_host_1 = shared_host\<lparr>filter_table :=
        [(''KUBE-ROUTER-INPUT'', []), (''KUBE-ROUTER-FORWARD'', []), (''KUBE-ROUTER-OUTPUT'', []),
         (''KUBE-POD-FW-DEFAULT'', [''-j REJECT'']),
         (''KUBE-POD-FW-NNVPOOBNORJ6FTUI'', []),
         (''DOCKER-COMMIT'', [''-j RETURN''])]\<rparr>"


text \<open>A pod and the state right after construction, for concrete runs.\<close>

definition example_pod :: Pod where
  "example_pod =
     \<lparr>Namespace = ''default'', Name = ''web-0'', Phase = ''Running'', PodIP = ''10.1.2.5'',
      HostIP = ''192.168.0.10'', HostNetwork = False, Labels = Some [''app'' \<mapsto> ''web'']\<rparr>"

definition start_state :: run_state where
  "start_state = \<lparr>npc = npc_zero, syncing = False\<rparr>"






text \<open>
  A policy with one ingress rule whose one peer selects the pods labelled \<open>role=client\<close>,
  a pod with that label, and two sets of collaborators that differ in \<open>evalPodPeer\<close> only:
  in the first the evaluation fails, in the second it gives one pod.
\<close>

definition client_peer :: NetworkPolicyPeer where
  "client_peer = \<lparr>peer_PodSelector = Some [(''role'', ''client'')],
                  peer_NamespaceSelector = None, peer_IPBlock = None\<rparr>"

definition allow_clients :: NetworkPolicy where
  "allow_clients = \<lparr>policy_Namespace = ''default'', policy_Name = ''allow-clients'',
                    spec_PodSelector = [(''app'', ''web'')],
                    spec_Ingress = [[client_peer]], spec_Egress = []\<rparr>"

definition client_pod :: podInfo where
  "client_pod = \<lparr>pod_ip = ''10.1.2.8'', pod_name = ''client-0'', pod_namespace = ''default'',
                 pod_labels = [''role'' \<mapsto> ''client'']\<rparr>"

definition client_Pod :: Pod where
  "client_Pod = \<lparr>Namespace = ''default'', Name = ''client-0'', Phase = ''Running'',
                 PodIP = ''10.1.2.8'', HostIP = ''192.168.0.10'', HostNetwork = False,
                 Labels = Some [''role'' \<mapsto> ''client'']\<rparr>"

definition env_with :: "Pod list \<times> string option \<Rightarrow> sync_env" where
  "env_with evaluation =
     \<lparr>npLister_List = [Some allow_clients],
      Matches = (\<lambda>selector labels. list_all (\<lambda>kv. labels (fst kv) = Some (snd kv)) selector),
      listPodsByNamespaceAndLabels = (\<lambda>ns selector. Inr []),
      evalPodPeer = (\<lambda>policy peer. evaluation),
      namespaceLister_Get = (\<lambda>ns. Some Map.empty),
      Create_error = (\<lambda>name. None)\<rparr>"

text \<open>
  A host as one full sync leaves it for the local pod \<open>web-0\<close>: the built-in chains jump to
  the three top-level chains, each top-level chain jumps to the pod's chain, and there is
  one policy chain and one set of the engine beside a set of another owner. The host
  before the engine ran has the built-in chains without rules and the other owner's set.
\<close>

definition engine_host :: host where
  "engine_host =
     \<lparr>filter_table =
        [(''INPUT'', [''-j KUBE-ROUTER-INPUT'']),
         (''FORWARD'', [''-j KUBE-ROUTER-FORWARD'']),
         (''OUTPUT'', [''-j KUBE-ROUTER-OUTPUT'']),
         (''KUBE-ROUTER-INPUT'', [''-s 10.1.2.5 -j KUBE-POD-FW-NNVPOOBNORJ6FTUI'']),
         (''KUBE-ROUTER-FORWARD'',
            [''-s 10.1.2.5 -j KUBE-POD-FW-NNVPOOBNORJ6FTUI'',
             ''-d 10.1.2.5 -j KUBE-POD-FW-NNVPOOBNORJ6FTUI'']),
         (''KUBE-ROUTER-OUTPUT'', [''-d 10.1.2.5 -j KUBE-POD-FW-NNVPOOBNORJ6FTUI'']),
         (''KUBE-POD-FW-NNVPOOBNORJ6FTUI'', [''-j KUBE-NWPLCY-DEFAULT-INGRESS'']),
         (''KUBE-NWPLCY-DEFAULT-INGRESS'', [''-j MARK --set-mark 0x10000/0x10000''])],
      ipset_names = [''KUBE-SRC-OLD'', ''other''],
      failing = (\<lambda>c. False)\<rparr>"

definition host_before_engine :: host where
  "host_before_engine =
     \<lparr>filter_table = [(''INPUT'', []), (''FORWARD'', []), (''OUTPUT'', [])],
      ipset_names = [''other''],
      failing = (\<lambda>c. False)\<rparr>"

definition engine_host_no_input_jump :: host where
  "engine_host_no_input_jump =
     engine_host\<lparr>filter_table :=
        AList.update ''KUBE-ROUTER-INPUT'' [] (filter_table engine_host)\<rparr>"

section \<open>Event gating and request coalescing\<close>

lemma run_append: "run (es @ fs) s = run fs (run es s)"
  by (induction es arbitrary: s) simp_all

lemma step_not_ready:
  "e \<noteq> SyncReturn \<Longrightarrow> \<not> readyForUpdates (npc s) \<Longrightarrow> \<not> readyForUpdates (npc (step e s))"
  by (cases e)
     (simp_all add: RequestFullSync_def AddFunc_def UpdateFunc_def DeleteFunc_def
        split: select_case.splits)

lemma run_not_ready:
  "SyncReturn \<notin> set es \<Longrightarrow> \<not> readyForUpdates (npc s) \<Longrightarrow> \<not> readyForUpdates (npc (run es s))"
proof (induction es arbitrary: s)
  case Nil
  then show ?case by simp
next
  case (Cons e es)
  from Cons.prems have "e \<noteq> SyncReturn" and rest: "SyncReturn \<notin> set es" by auto
  with Cons.prems have "\<not> readyForUpdates (npc (step e s))" by (simp add: step_not_ready)
  with rest show ?case by (simp add: Cons.IH)
qed

text \<open>
  C3. As long as no \<open>fullPolicySync\<close> has returned (no \<open>SyncReturn\<close> in the history) and the
  controller started with \<open>readyForUpdates\<close> unset, each of the three pod handlers, called
  with any objects after any history of ticks, receives and pod events, leaves the whole
  state as it was: the flag, the request channel (so no full-sync request is sent) and
  every other field.
\<close>

theorem pod_handlers_gated_until_first_sync:
  assumes "\<not> readyForUpdates (npc s0)" and "SyncReturn \<notin> set history"
  shows "AddFunc obj (npc (run history s0)) = npc (run history s0)
       \<and> UpdateFunc oldObj newObj (npc (run history s0)) = npc (run history s0)
       \<and> DeleteFunc obj (npc (run history s0)) = npc (run history s0)
       \<and> (is_pod_event e \<longrightarrow> step e (run history s0) = run history s0)"
proof -
  from assms have nr: "\<not> readyForUpdates (npc (run history s0))"
    by (simp add: run_not_ready)
  then have "is_pod_event e \<Longrightarrow> step e (run history s0) = run history s0"
    by (cases e) (simp_all add: AddFunc_def UpdateFunc_def DeleteFunc_def)
  with nr show ?thesis
    by (simp add: AddFunc_def UpdateFunc_def DeleteFunc_def)
qed

theorem pod_handlers_gated_witness:
  "\<not> readyForUpdates (npc start_state)
   \<and> SyncReturn \<notin> set [Tick, SyncReceive, PodAdded example_pod]
   \<and> AddFunc example_pod (npc (run [Tick, SyncReceive, PodAdded example_pod] start_state))
       = npc (run [Tick, SyncReceive, PodAdded example_pod] start_state)
   \<and> step (PodDeleted example_pod) (run [Tick, SyncReceive, PodAdded example_pod] start_state)
       = run [Tick, SyncReceive, PodAdded example_pod] start_state
   \<and> fullSyncRequestChan (npc (run [Tick, SyncReceive, PodAdded example_pod] start_state)) = []"
  using pod_handlers_gated_until_first_sync
    [of start_state "[Tick, SyncReceive, PodAdded example_pod]" example_pod example_pod
      example_pod "PodDeleted example_pod"]
  by (simp add: start_state_def npc_zero_def RequestFullSync_def chan_send_def
        fullSyncRequestChanCap_def receives_def AddFunc_def)

lemma RequestFullSync_full:
  "length (fullSyncRequestChan c) = fullSyncRequestChanCap \<Longrightarrow> RequestFullSync c = c"
  by (simp add: RequestFullSync_def chan_send_def)

lemma RequestFullSync_funpow_full:
  "length (fullSyncRequestChan c) = fullSyncRequestChanCap \<Longrightarrow> (RequestFullSync ^^ n) c = c"
  by (induction n) (simp_all add: RequestFullSync_full)

lemma RequestFullSync_length:
  "length (fullSyncRequestChan c) \<le> fullSyncRequestChanCap
   \<Longrightarrow> length (fullSyncRequestChan (RequestFullSync c)) \<le> fullSyncRequestChanCap"
  by (simp add: RequestFullSync_def chan_send_def)

text \<open>
  Without a new request, the goroutine starts at most as many syncs as requests are
  buffered.
\<close>

lemma syncs_started_bound:
  "\<forall>e \<in> set es. \<not> is_request e
   \<Longrightarrow> syncs_started es s \<le> length (fullSyncRequestChan (npc s))"
proof (induction es arbitrary: s)
  case Nil
  then show ?case by simp
next
  case (Cons e es)
  then have nreq: "\<not> is_request e" and rest: "\<forall>e \<in> set es. \<not> is_request e" by auto
  have ih: "syncs_started es (step e s) \<le> length (fullSyncRequestChan (npc (step e s)))"
    using Cons.IH rest by blast
  from nreq consider "e = SyncReceive" | "e = SyncReturn" by (cases e) auto
  then show ?case
  proof cases
    case 1
    show ?thesis
    proof (cases "receives SyncReceive s")
      case True
      then have ne: "fullSyncRequestChan (npc s) \<noteq> []" by (simp add: receives_def)
      have "length (fullSyncRequestChan (npc (step e s))) = length (fullSyncRequestChan (npc s)) - 1"
        using True 1 by simp
      with ih ne True 1 show ?thesis
        by (cases "fullSyncRequestChan (npc s)") auto
    next
      case False
      with ih 1 show ?thesis by simp
    qed
  next
    case 2
    then have "\<not> receives e s" by (simp add: receives_def)
    moreover have "fullSyncRequestChan (npc (step e s)) = fullSyncRequestChan (npc s)"
      using 2 by simp
    ultimately show ?thesis using ih by simp
  qed
qed

text \<open>
  C4. While the one-slot channel is occupied, any number \<open>n\<close> of \<open>RequestFullSync\<close> calls
  (each returns: the function is total, the full channel is the \<open>default\<close> case) leaves
  the controller as it was, so every one of them is dropped; and whatever the goroutine
  does afterwards without a further request, it starts at most one more full sync.
\<close>

theorem RequestFullSync_coalesces:
  assumes "length (fullSyncRequestChan (npc s)) = fullSyncRequestChanCap"
    and "\<forall>e \<in> set later. \<not> is_request e"
  shows "(RequestFullSync ^^ n) (npc s) = npc s
       \<and> chan_send fullSyncRequestChanCap (fullSyncRequestChan (npc s)) = WouldBlock
       \<and> syncs_started later (s\<lparr>npc := (RequestFullSync ^^ n) (npc s)\<rparr>) \<le> 1"
proof -
  have same: "(RequestFullSync ^^ n) (npc s) = npc s"
    using assms(1) by (rule RequestFullSync_funpow_full)
  have "syncs_started later s \<le> length (fullSyncRequestChan (npc s))"
    using assms(2) by (rule syncs_started_bound)
  with assms(1) have "syncs_started later s \<le> 1"
    by (simp add: fullSyncRequestChanCap_def)
  with same assms(1) show ?thesis
    by (simp add: chan_send_def)
qed

theorem RequestFullSync_coalesces_witness:
  "length (fullSyncRequestChan (npc (run [Tick] start_state))) = fullSyncRequestChanCap
   \<and> \<not> is_request SyncReceive \<and> \<not> is_request SyncReturn
   \<and> (RequestFullSync ^^ 1000) (npc (run [Tick] start_state)) = npc (run [Tick] start_state)
   \<and> syncs_started [SyncReceive, SyncReturn, SyncReceive, SyncReturn]
        ((run [Tick] start_state)
           \<lparr>npc := (RequestFullSync ^^ 1000) (npc (run [Tick] start_state))\<rparr>) = 1"
proof -
  have full: "length (fullSyncRequestChan (npc (run [Tick] start_state))) = fullSyncRequestChanCap"
    by (simp add: start_state_def npc_zero_def RequestFullSync_def chan_send_def
          fullSyncRequestChanCap_def)
  have later: "\<forall>e \<in> set [SyncReceive, SyncReturn, SyncReceive, SyncReturn]. \<not> is_request e"
    by simp
  note c = RequestFullSync_coalesces [OF full later, of 1000]
  then have same: "(RequestFullSync ^^ 1000) (npc (run [Tick] start_state))
      = npc (run [Tick] start_state)"
    by simp
  have "syncs_started [SyncReceive, SyncReturn, SyncReceive, SyncReturn] (run [Tick] start_state) = 1"
    by (simp add: start_state_def npc_zero_def RequestFullSync_def chan_send_def
          fullSyncRequestChanCap_def receives_def)
  with full same show ?thesis by simp
qed

section \<open>Construction fails on an invalid configuration\<close>

lemma FindStringSubmatch_SomeD:
  assumes "FindStringSubmatch s = Some m"
  shows "\<exists>g1 g2. m = [s, g1, g2] \<and> g1 \<noteq> [] \<and> list_all is_digit g1 \<and> g2 \<noteq> [] \<and> list_all is_digit g2"
proof -
  have g1: "list_all is_digit (takeWhile is_digit s)"
    by (simp add: list_all_iff) (meson set_takeWhileD)
  from assms g1 show ?thesis
    by (auto simp: FindStringSubmatch_def Let_def split: list.splits if_splits)
qed

lemma is_digit_not_sign: "is_digit c \<Longrightarrow> c \<noteq> CHR ''-'' \<and> c \<noteq> CHR ''+''"
  by (auto simp: is_digit_def)

lemma ParseInt_digits:
  assumes "g \<noteq> []" and "list_all is_digit g"
  shows "ParseInt g 16 = (if 32767 < dec_value g then Inl ErrRange else Inr (int (dec_value g)))"
proof -
  from assms obtain c cs where g: "g = c # cs" and c: "is_digit c"
    by (cases g) auto
  from c have "c \<noteq> CHR ''-''" and "c \<noteq> CHR ''+''"
    by (simp_all add: is_digit_not_sign)
  with g assms show ?thesis
    by (simp add: ParseInt_def Let_def)
qed

lemma ctor_ports:
  assumes "FindStringSubmatch (NodePortRange config) = Some [whole, g1, g2]"
    and "32767 < dec_value g1 \<or> 32767 < dec_value g2 \<or> dec_value g2 \<le> dec_value g1"
  shows "isl (NewNetworkPolicyController env config)"
proof -
  from FindStringSubmatch_SomeD [OF assms(1)]
  have d: "g1 \<noteq> []" "list_all is_digit g1" "g2 \<noteq> []" "list_all is_digit g2"
    by auto
  note p1 = ParseInt_digits [OF d(1,2)] and p2 = ParseInt_digits [OF d(3,4)]
  show ?thesis
    using assms p1 p2
    by (auto simp: NewNetworkPolicyController_def MatchString_def
          split: option.splits sum.splits if_splits)
qed

lemma ctor_no_match:
  "\<not> MatchString (NodePortRange config) \<Longrightarrow> isl (NewNetworkPolicyController env config)"
  by (auto simp: NewNetworkPolicyController_def split: option.splits sum.splits)

lemma ctor_bad_cidr:
  "ParseCIDR env (ClusterIPCIDR config) = None \<Longrightarrow> isl (NewNetworkPolicyController env config)"
  by (simp add: NewNetworkPolicyController_def)

lemma match_80_65536:
  "FindStringSubmatch ''80:65536'' = Some [''80:65536'', ''80'', ''65536'']"
  by (simp add: FindStringSubmatch_def is_digit_def Let_def)

lemma match_30000_30000:
  "FindStringSubmatch ''30000:30000'' = Some [''30000:30000'', ''30000'', ''30000'']"
  by (simp add: FindStringSubmatch_def is_digit_def Let_def)

lemma match_30000_40000:
  "FindStringSubmatch ''30000:40000'' = Some [''30000:40000'', ''30000'', ''40000'']"
  by (simp add: FindStringSubmatch_def is_digit_def Let_def)

lemma dec_values:
  "dec_value ''80'' = 80" "dec_value ''65536'' = 65536" "dec_value ''30000'' = 30000"
  "dec_value ''40000'' = 40000"
  by (simp_all add: dec_value_def)

text \<open>
  C8. Construction returns an error, and so no controller, whenever the service cluster-IP
  range does not parse, the node-port range does not match the validator, or it matches
  and the first port is greater than or equal to the second; and whenever the range is
  \<open>80:65536\<close> or \<open>30000:30000\<close>. The collaborators and the rest of the configuration
  are arbitrary.
\<close>

theorem constructor_rejects_invalid_config:
  assumes "ParseCIDR env (ClusterIPCIDR config) = None
         \<or> \<not> MatchString (NodePortRange config)
         \<or> (\<exists>whole g1 g2. FindStringSubmatch (NodePortRange config) = Some [whole, g1, g2]
               \<and> dec_value g2 \<le> dec_value g1)
         \<or> NodePortRange config = ''80:65536''
         \<or> NodePortRange config = ''30000:30000''"
  shows "isl (NewNetworkPolicyController env config)"
  using assms
proof (elim disjE exE conjE, goal_cases)
  case 1
  then show ?case by (rule ctor_bad_cidr)
next
  case 2
  then show ?case by (rule ctor_no_match)
next
  case (3 whole g1 g2)
  then show ?case by (simp add: ctor_ports)
next
  case 4
  have "FindStringSubmatch (NodePortRange config) = Some [''80:65536'', ''80'', ''65536'']"
    by (simp only: 4 match_80_65536)
  then show ?case by (rule ctor_ports) (simp add: dec_values)
next
  case 5
  have "FindStringSubmatch (NodePortRange config) = Some [''30000:30000'', ''30000'', ''30000'']"
    by (simp only: 5 match_30000_30000)
  then show ?case by (rule ctor_ports) simp
qed

theorem constructor_rejects_witness:
  "NodePortRange (config_with_range ''30000:30000'') = ''30000:30000''
   \<and> isl (NewNetworkPolicyController good_env (config_with_range ''30000:30000''))
   \<and> NodePortRange (config_with_range ''80:65536'') = ''80:65536''
   \<and> isl (NewNetworkPolicyController good_env (config_with_range ''80:65536''))"
  using constructor_rejects_invalid_config [of good_env "config_with_range ''30000:30000''"]
    constructor_rejects_invalid_config [of good_env "config_with_range ''80:65536''"]
  by (simp add: config_with_range_def)

text \<open>
  C10. The two ports are parsed with \<open>ParseInt(_, 10, 16)\<close>: when the range matches the
  validator and one of its two numbers exceeds 32767, that number's parse is a range
  error and construction returns an error, whatever the collaborators answer. The
  witness is \<open>30000:40000\<close>, a range inside the port space 1 to 65535.
\<close>

theorem signed_16_bit_ports_rejected:
  assumes "FindStringSubmatch (NodePortRange config) = Some [whole, g1, g2]"
    and "32767 < dec_value g1 \<or> 32767 < dec_value g2"
  shows "isl (NewNetworkPolicyController env config)
       \<and> (ParseInt g1 16 = Inl ErrRange \<or> ParseInt g2 16 = Inl ErrRange)"
proof -
  from FindStringSubmatch_SomeD [OF assms(1)]
  have d: "g1 \<noteq> []" "list_all is_digit g1" "g2 \<noteq> []" "list_all is_digit g2"
    by auto
  have "ParseInt g1 16 = Inl ErrRange \<or> ParseInt g2 16 = Inl ErrRange"
    using assms(2) ParseInt_digits [OF d(1,2)] ParseInt_digits [OF d(3,4)] by auto
  moreover have "isl (NewNetworkPolicyController env config)"
    using assms(1) by (rule ctor_ports) (use assms(2) in blast)
  ultimately show ?thesis by simp
qed

theorem signed_16_bit_ports_witness:
  "FindStringSubmatch (NodePortRange (config_with_range ''30000:40000''))
     = Some [''30000:40000'', ''30000'', ''40000'']
   \<and> 32767 < dec_value ''40000''
   \<and> isl (NewNetworkPolicyController good_env (config_with_range ''30000:40000''))
   \<and> ParseInt ''30000'' 16 = Inr 30000
   \<and> ParseInt ''40000'' 16 = Inl ErrRange"
proof -
  have m: "FindStringSubmatch (NodePortRange (config_with_range ''30000:40000''))
     = Some [''30000:40000'', ''30000'', ''40000'']"
    by (simp add: config_with_range_def match_30000_40000)
  have big: "32767 < dec_value ''30000'' \<or> 32767 < dec_value ''40000''"
    by (simp add: dec_values)
  have p: "ParseInt ''30000'' 16 = Inr 30000"
    by (simp add: ParseInt_def is_digit_def dec_values)
  from signed_16_bit_ports_rejected [OF m big, of good_env] m p show ?thesis
    by (simp add: dec_values)
qed

section \<open>The shape of a pod firewall chain name\<close>

lemma length_be32: "length (be32 w) = 4"
  by (simp add: be32_def)

lemma length_Sum256: "length (Sum256 m) = 32"
  by (simp add: Sum256_def length_be32 split: prod.splits)

lemma length_encodeStd: "length encodeStd = 32"
  by (simp add: encodeStd_def)

lemma length_encode_group: "length (encode_group g) = 8"
  by (simp add: encode_group_def)

lemma set_encode_group: "set (encode_group g) \<subseteq> set encodeStd"
proof -
  have "encodeStd ! (k mod 32) \<in> set encodeStd" for k
    by (rule nth_mem) (simp add: length_encodeStd)
  then show ?thesis
    by (auto simp: encode_group_def)
qed

lemma EncodeToString_group:
  assumes "length g = 5"
  shows "EncodeToString (g @ rest) = encode_group g @ EncodeToString rest"
proof -
  from assms obtain a b c d e where "g = [a, b, c, d, e]"
    by (auto simp: eval_nat_numeral length_Suc_conv)
  then show ?thesis by simp
qed

lemma EncodeToString_10:
  assumes "10 \<le> length bs"
  shows "take 16 (EncodeToString bs)
       = encode_group (take 5 bs) @ encode_group (take 5 (drop 5 bs))"
proof -
  have "take 5 (drop 5 bs) @ drop 10 bs = drop 5 bs"
    using append_take_drop_id [of 5 "drop 5 bs"] by simp
  then have split: "bs = take 5 bs @ take 5 (drop 5 bs) @ drop 10 bs"
    by simp
  have l1: "length (take 5 bs) = 5" and l2: "length (take 5 (drop 5 bs)) = 5"
    using assms by simp_all
  have "EncodeToString bs
      = encode_group (take 5 bs) @ encode_group (take 5 (drop 5 bs)) @ EncodeToString (drop 10 bs)"
    by (subst split) (simp only: EncodeToString_group [OF l1] EncodeToString_group [OF l2])
  then show ?thesis
    by (simp add: length_encode_group)
qed

lemma token_alphabet:
  assumes "10 \<le> length bs"
  shows "set (take 16 (EncodeToString bs)) \<subseteq> set encodeStd"
    and "length (take 16 (EncodeToString bs)) = 16"
  using set_encode_group [of "take 5 bs"] set_encode_group [of "take 5 (drop 5 bs)"]
  by (simp_all add: EncodeToString_10 [OF assms] length_encode_group)

lemma length_EncodeToString_ge:
  assumes "10 \<le> length bs"
  shows "16 \<le> length (EncodeToString bs)"
proof -
  have "length (take 16 (EncodeToString bs)) = 16"
    using assms by (rule token_alphabet)
  then show ?thesis by simp
qed

text \<open>
  C9. For every namespace, pod name and version, \<open>podFirewallChainName\<close> is the prefix
  \<open>KUBE-POD-FW-\<close> followed by the first 16 characters of the base-32 text of the SHA-256
  hash of the three strings concatenated; that text is long enough for the slice; the 16
  characters are letters of the base-32 alphabet; the name has 28 characters; and equal
  arguments give equal names.
\<close>

theorem podFirewallChainName_shape:
  "podFirewallChainName namespace podName version
     = kubePodFirewallChainPrefix
       @ take 16 (EncodeToString (Sum256 (bytes_of (namespace @ podName @ version))))
   \<and> 16 \<le> length (EncodeToString (Sum256 (bytes_of (namespace @ podName @ version))))
   \<and> set (drop (length kubePodFirewallChainPrefix) (podFirewallChainName namespace podName version))
       \<subseteq> set encodeStd
   \<and> length (podFirewallChainName namespace podName version) = 28
   \<and> (\<forall>namespace' podName' version'.
         namespace' = namespace \<and> podName' = podName \<and> version' = version
         \<longrightarrow> podFirewallChainName namespace' podName' version'
             = podFirewallChainName namespace podName version)"
proof -
  let ?h = "Sum256 (bytes_of (namespace @ podName @ version))"
  have h: "10 \<le> length ?h" by (simp add: length_Sum256)
  note t = token_alphabet [OF h] and g = length_EncodeToString_ge [OF h]
  show ?thesis
    using t g by (simp add: podFirewallChainName_def Let_def kubePodFirewallChainPrefix_def)
qed

theorem podFirewallChainName_witness:
  "(''default'' = ''default'' \<and> ''web-0'' = ''web-0'' \<and> ''1'' = ''1'')
   \<and> podFirewallChainName ''default'' ''web-0'' ''1'' = podFirewallChainName ''default'' ''web-0'' ''1''
   \<and> length (podFirewallChainName ''default'' ''web-0'' ''1'') = 28
   \<and> take 12 (podFirewallChainName ''default'' ''web-0'' ''1'') = ''KUBE-POD-FW-''"
  using podFirewallChainName_shape [of "''default''" "''web-0''" "''1''"]
  by (simp add: kubePodFirewallChainPrefix_def)

section \<open>The table rebuilt by the garbage collector\<close>

lemma strings_Split_not_Nil [simp]: "strings_Split s \<noteq> []"
  by (induction s) (auto split: list.splits)



lemma strings_Split_last: "nl \<notin> set a \<Longrightarrow> strings_Split a = [a]"
  by (induction a) (auto split: list.splits)









lemma classifyChains_filter:
  "classifyChains apc apf cs acc =
     (fst acc @ filter (\<lambda>c. strings_HasPrefix c kubeNetworkPolicyChainPrefix \<and> apc c = None) cs,
      snd acc @ filter (\<lambda>c. strings_HasPrefix c kubePodFirewallChainPrefix \<and> apf c = None) cs)"
  by (induction cs arbitrary: acc) (simp_all add: Let_def)

lemma classifySets_filter:
  "classifySets aps sets acc =
     acc @ filter (\<lambda>n. (strings_HasPrefix n kubeSourceIPSetPrefix
                         \<or> strings_HasPrefix n kubeDestinationIPSetPrefix) \<and> aps n = None) sets"
  by (induction sets arbitrary: acc) simp_all

section \<open>What the garbage collector classifies as stale\<close>

lemma default_chain_prefixes:
  "\<not> strings_HasPrefix KubeDefaultPodFWChain kubeNetworkPolicyChainPrefix"
  "\<not> strings_HasPrefix kubeIngressNetpolChain kubePodFirewallChainPrefix"
  "\<not> strings_HasPrefix kubeEgressNetpolChain kubePodFirewallChainPrefix"
  by (simp_all add: strings_HasPrefix_def KubeDefaultPodFWChain_def kubeIngressNetpolChain_def
        kubeEgressNetpolChain_def kubeNetworkPolicyChainPrefix_def kubePodFirewallChainPrefix_def)

lemma destroySets_subset:
  "destroySets names h acc = (e, h', d) \<Longrightarrow> set d \<subseteq> set acc \<union> set names"
proof (induction names arbitrary: h acc)
  case Nil
  then show ?case by simp
next
  case (Cons name names)
  show ?case
  proof (cases "ipset_Destroy h name")
    case None
    with Cons.prems show ?thesis by auto
  next
    case (Some h1)
    with Cons.prems have "destroySets names h1 (acc @ [name]) = (e, h', d)" by simp
    from Cons.IH [OF this] show ?thesis by auto
  qed
qed

lemma destroySets_sound:
  "destroySets names h [] = (e, h', d) \<Longrightarrow> x \<in> set d \<Longrightarrow> x \<in> set names"
  using destroySets_subset [of names h "[]" e h' d] by auto

lemma classifyChains_sound:
  "set (fst (classifyChains
         (apc(kubeIngressNetpolChain \<mapsto> True, kubeEgressNetpolChain \<mapsto> True))
         (apf(KubeDefaultPodFWChain \<mapsto> True)) cs ([], [])))
     \<subseteq> {c. strings_HasPrefix c kubeNetworkPolicyChainPrefix \<and> apc c = None
            \<and> c \<noteq> kubeIngressNetpolChain \<and> c \<noteq> kubeEgressNetpolChain}"
  "set (snd (classifyChains
         (apc(kubeIngressNetpolChain \<mapsto> True, kubeEgressNetpolChain \<mapsto> True))
         (apf(KubeDefaultPodFWChain \<mapsto> True)) cs ([], [])))
     \<subseteq> {c. strings_HasPrefix c kubePodFirewallChainPrefix \<and> apf c = None
            \<and> c \<noteq> KubeDefaultPodFWChain}"
  by (auto simp: classifyChains_filter split: if_splits)

lemma classifySets_sound:
  "set (classifySets aps names [])
     \<subseteq> {n. (strings_HasPrefix n kubeSourceIPSetPrefix
              \<or> strings_HasPrefix n kubeDestinationIPSetPrefix) \<and> aps n = None}"
  by (auto simp: classifySets_filter)

text \<open>The cleanup lists of an outcome: empty, or what the two classification loops gave.\<close>

lemma outcome_lists:
  fixes h t apc apf aps
  defines "out \<equiv> cleanupStaleRules h t apc apf aps"
  shows "(stalePolicyChains out = [] \<and> stalePodFwChains out = [] \<and> stalePolicyIPSets out = []
          \<and> destroyed out = [])
       \<or> (\<exists>cs. stalePolicyChains out = fst (classifyChains
                    (apc(kubeIngressNetpolChain \<mapsto> True, kubeEgressNetpolChain \<mapsto> True))
                    (apf(KubeDefaultPodFWChain \<mapsto> True)) cs ([], []))
              \<and> stalePodFwChains out = snd (classifyChains
                    (apc(kubeIngressNetpolChain \<mapsto> True, kubeEgressNetpolChain \<mapsto> True))
                    (apf(KubeDefaultPodFWChain \<mapsto> True)) cs ([], []))
              \<and> stalePolicyIPSets out = classifySets aps (ipset_names h) []
              \<and> set (destroyed out) \<subseteq> set (stalePolicyIPSets out))"
proof (cases "failing h CmdIPSetSave \<or> ipt_ListChains h = None")
  case True
  then show ?thesis
    by (auto simp: out_def cleanupStaleRules_def Let_def)
next
  case False
  then obtain cs where cs: "ipt_ListChains h = Some cs" and sv: "\<not> failing h CmdIPSetSave"
    by auto
  let ?cls = "classifyChains
                (apc(kubeIngressNetpolChain \<mapsto> True, kubeEgressNetpolChain \<mapsto> True))
                (apf(KubeDefaultPodFWChain \<mapsto> True)) cs ([], [])"
  let ?sets = "classifySets aps (ipset_names h) []"
  have lists: "stalePolicyChains out = fst ?cls" "stalePodFwChains out = snd ?cls"
    "stalePolicyIPSets out = ?sets"
    by (simp_all add: out_def cleanupStaleRules_def Let_def cs sv
          split: option.splits prod.splits)
  have "set (destroyed out) \<subseteq> set ?sets"
    by (auto simp: out_def cleanupStaleRules_def Let_def cs sv
          split: option.splits prod.splits dest: destroySets_sound)
  with lists show ?thesis by auto
qed

lemmas string_eval =
  strings_HasPrefix_def strings_Contains_def sublist_code prefix_code nl_def space_def
  kubePodFirewallChainPrefix_def kubeNetworkPolicyChainPrefix_def kubeSourceIPSetPrefix_def
  kubeDestinationIPSetPrefix_def kubeInputChainName_def kubeForwardChainName_def
  kubeOutputChainName_def KubeDefaultPodFWChain_def kubeIngressNetpolChain_def
  kubeEgressNetpolChain_def

lemma cleanupStaleRules_completes:
  assumes "\<not> failing h CmdIPSetSave"
    and "ipt_ListChains h = Some cs"
    and "classifyChains
           (apc(kubeIngressNetpolChain \<mapsto> True, kubeEgressNetpolChain \<mapsto> True))
           (apf(KubeDefaultPodFWChain \<mapsto> True)) cs ([], []) = (cpol, cpod)"
    and "classifySets aps (ipset_names h) [] = sets"
    and "gcStaleReferences cpod h = (None, h1)"
    and "utils_Restore h1 (desiredFilterTable cpod cpol t) = Some h2"
    and "destroySets sets h2 [] = (e, h3, d)"
  shows "cleanupStaleRules h t apc apf aps =
     \<lparr>gc_err = e, stalePolicyChains = cpol, stalePodFwChains = cpod, stalePolicyIPSets = sets,
      restored = Some (desiredFilterTable cpod cpol t), destroyed = d, host_after = h3\<rparr>"
  using assms by (simp add: cleanupStaleRules_def Let_def)

lemma outcome_sound:
  fixes h t apc apf aps
  defines "out \<equiv> cleanupStaleRules h t apc apf aps"
  shows "set (stalePolicyChains out)
           \<subseteq> {c. strings_HasPrefix c kubeNetworkPolicyChainPrefix \<and> apc c = None
                  \<and> c \<noteq> kubeIngressNetpolChain \<and> c \<noteq> kubeEgressNetpolChain}" (is ?A)
    and "set (stalePodFwChains out)
           \<subseteq> {c. strings_HasPrefix c kubePodFirewallChainPrefix \<and> apf c = None
                  \<and> c \<noteq> KubeDefaultPodFWChain}" (is ?B)
    and "set (stalePolicyIPSets out)
           \<subseteq> {n. (strings_HasPrefix n kubeSourceIPSetPrefix
                    \<or> strings_HasPrefix n kubeDestinationIPSetPrefix) \<and> aps n = None}" (is ?C)
    and "set (destroyed out) \<subseteq> set (stalePolicyIPSets out)" (is ?D)
proof -
  have "?A \<and> ?B \<and> ?C \<and> ?D"
    using outcome_lists [of h t apc apf aps, folded out_def]
  proof (elim disjE exE conjE, goal_cases)
    case 1
    then show ?case by simp
  next
    case (2 cs)
    have a: ?A by (simp only: 2) (rule classifyChains_sound)
    have b: ?B by (simp only: 2) (rule classifyChains_sound)
    have c: ?C by (simp only: 2) (rule classifySets_sound)
    from a b c 2(4) show ?case by (intro conjI)
  qed
  then show ?A and ?B and ?C and ?D by simp_all
qed

text \<open>
  The classification is as the specification has it. In every run of the collector,
  whatever the host, the dump and the three active maps: none of the three default chains
  is in a cleanup list; every chain in a cleanup list carries the policy or the
  pod-firewall prefix and is absent from its active map; every IP set in the cleanup list
  carries the source or the destination prefix and is absent from the active map; and
  every IP set the run destroys is in that cleanup list.
\<close>

lemma gc_classification:
  "let out = cleanupStaleRules h currentFilterTable activePolicyChains activePodFwChains
               activePolicyIPSets
   in KubeDefaultPodFWChain \<notin> set (stalePodFwChains out) \<union> set (stalePolicyChains out)
    \<and> kubeIngressNetpolChain \<notin> set (stalePodFwChains out) \<union> set (stalePolicyChains out)
    \<and> kubeEgressNetpolChain \<notin> set (stalePodFwChains out) \<union> set (stalePolicyChains out)
    \<and> (\<forall>c \<in> set (stalePolicyChains out).
          strings_HasPrefix c kubeNetworkPolicyChainPrefix \<and> activePolicyChains c = None)
    \<and> (\<forall>c \<in> set (stalePodFwChains out).
          strings_HasPrefix c kubePodFirewallChainPrefix \<and> activePodFwChains c = None)
    \<and> (\<forall>n \<in> set (stalePolicyIPSets out).
          (strings_HasPrefix n kubeSourceIPSetPrefix
           \<or> strings_HasPrefix n kubeDestinationIPSetPrefix) \<and> activePolicyIPSets n = None)
    \<and> set (destroyed out) \<subseteq> set (stalePolicyIPSets out)"
proof -
  define out where "out = cleanupStaleRules h currentFilterTable activePolicyChains
    activePodFwChains activePolicyIPSets"
  note s = outcome_sound [of h currentFilterTable activePolicyChains activePodFwChains
      activePolicyIPSets, folded out_def]
  have pol: "c \<in> set (stalePolicyChains out) \<Longrightarrow>
      strings_HasPrefix c kubeNetworkPolicyChainPrefix \<and> activePolicyChains c = None
      \<and> c \<noteq> kubeIngressNetpolChain \<and> c \<noteq> kubeEgressNetpolChain" for c
    using s(1) by (rule subsetD [THEN CollectD])
  have pod: "c \<in> set (stalePodFwChains out) \<Longrightarrow>
      strings_HasPrefix c kubePodFirewallChainPrefix \<and> activePodFwChains c = None
      \<and> c \<noteq> KubeDefaultPodFWChain" for c
    using s(2) by (rule subsetD [THEN CollectD])
  have ips: "n \<in> set (stalePolicyIPSets out) \<Longrightarrow>
      (strings_HasPrefix n kubeSourceIPSetPrefix
       \<or> strings_HasPrefix n kubeDestinationIPSetPrefix) \<and> activePolicyIPSets n = None" for n
    using s(3) by (rule subsetD [THEN CollectD])
  have d1: "KubeDefaultPodFWChain \<notin> set (stalePodFwChains out) \<union> set (stalePolicyChains out)"
    using pol [of KubeDefaultPodFWChain] pod [of KubeDefaultPodFWChain]
      default_chain_prefixes(1) by blast
  have d2: "kubeIngressNetpolChain \<notin> set (stalePodFwChains out) \<union> set (stalePolicyChains out)"
    using pol [of kubeIngressNetpolChain] pod [of kubeIngressNetpolChain]
      default_chain_prefixes(2) by blast
  have d3: "kubeEgressNetpolChain \<notin> set (stalePodFwChains out) \<union> set (stalePolicyChains out)"
    using pol [of kubeEgressNetpolChain] pod [of kubeEgressNetpolChain]
      default_chain_prefixes(3) by blast
  have q1: "\<forall>c \<in> set (stalePolicyChains out).
          strings_HasPrefix c kubeNetworkPolicyChainPrefix \<and> activePolicyChains c = None"
    using pol by blast
  have q2: "\<forall>c \<in> set (stalePodFwChains out).
          strings_HasPrefix c kubePodFirewallChainPrefix \<and> activePodFwChains c = None"
    using pod by blast
  have q3: "\<forall>n \<in> set (stalePolicyIPSets out).
          (strings_HasPrefix n kubeSourceIPSetPrefix
           \<or> strings_HasPrefix n kubeDestinationIPSetPrefix) \<and> activePolicyIPSets n = None"
    using ips by blast
  have "KubeDefaultPodFWChain \<notin> set (stalePodFwChains out) \<union> set (stalePolicyChains out)
    \<and> kubeIngressNetpolChain \<notin> set (stalePodFwChains out) \<union> set (stalePolicyChains out)
    \<and> kubeEgressNetpolChain \<notin> set (stalePodFwChains out) \<union> set (stalePolicyChains out)
    \<and> (\<forall>c \<in> set (stalePolicyChains out).
          strings_HasPrefix c kubeNetworkPolicyChainPrefix \<and> activePolicyChains c = None)
    \<and> (\<forall>c \<in> set (stalePodFwChains out).
          strings_HasPrefix c kubePodFirewallChainPrefix \<and> activePodFwChains c = None)
    \<and> (\<forall>n \<in> set (stalePolicyIPSets out).
          (strings_HasPrefix n kubeSourceIPSetPrefix
           \<or> strings_HasPrefix n kubeDestinationIPSetPrefix) \<and> activePolicyIPSets n = None)
    \<and> set (destroyed out) \<subseteq> set (stalePolicyIPSets out)"
    using d1 d2 d3 q1 q2 q3 s(4) by (intro conjI)
  then show ?thesis
    unfolding Let_def out_def .
qed

text \<open>A run of the collector on the shared host, step by step.\<close>

lemma sh_lists: "ipt_ListChains shared_host = Some [''KUBE-ROUTER-INPUT'', ''KUBE-ROUTER-FORWARD'',
    ''KUBE-ROUTER-OUTPUT'', ''KUBE-POD-FW-DEFAULT'', ''KUBE-POD-FW-NNVPOOBNORJ6FTUI'', ''DOCKER-COMMIT'']"
  by (simp add: ipt_ListChains_def shared_host_def)

lemma sh_cls: "classifyChains (Map.empty(kubeIngressNetpolChain \<mapsto> True, kubeEgressNetpolChain \<mapsto> True))
     (Map.empty(KubeDefaultPodFWChain \<mapsto> True)) [''KUBE-ROUTER-INPUT'', ''KUBE-ROUTER-FORWARD'',
    ''KUBE-ROUTER-OUTPUT'', ''KUBE-POD-FW-DEFAULT'', ''KUBE-POD-FW-NNVPOOBNORJ6FTUI'', ''DOCKER-COMMIT'']
     ([], []) = ([], [''KUBE-POD-FW-NNVPOOBNORJ6FTUI''])"
  by (simp add: string_eval)

lemma sh_sets: "classifySets Map.empty (ipset_names shared_host) [] = [''KUBE-SRC-OLD'']"
  by (simp add: string_eval shared_host_def)

lemma sh_refs: "gcStaleReferences [''KUBE-POD-FW-NNVPOOBNORJ6FTUI''] shared_host = (None, shared_host_1)"
  by (simp add: string_eval shared_host_def shared_host_1_def ipt_List_def ipt_Delete_def
        enumerate_eq_zip upt_rec)

lemma sh_desired: "desiredFilterTable [''KUBE-POD-FW-NNVPOOBNORJ6FTUI''] [] shared_dump =
   ''*filter'' @ [nl] @ '':KUBE-ROUTER-INPUT - [0:0] - [0:0]'' @ [nl]
   @ '':KUBE-ROUTER-FORWARD - [0:0] - [0:0]'' @ [nl] @ '':KUBE-ROUTER-OUTPUT - [0:0] - [0:0]'' @ [nl]
   @ '':KUBE-POD-FW-DEFAULT - [0:0] - [0:0]'' @ [nl]
   @ ''-A KUBE-POD-FW-DEFAULT -j REJECT'' @ [nl]
   @ ''COMMIT'' @ [nl]"
  by (simp add: desiredFilterTable_def filterTableLines_def shared_dump_def skipRule_def string_eval)

lemma sh_restore:
  "utils_Restore shared_host_1 (desiredFilterTable [''KUBE-POD-FW-NNVPOOBNORJ6FTUI''] [] shared_dump)
     = Some (shared_host\<lparr>filter_table :=
         [(''KUBE-ROUTER-INPUT'', []), (''KUBE-ROUTER-FORWARD'', []), (''KUBE-ROUTER-OUTPUT'', []),
          (''KUBE-POD-FW-DEFAULT'', [''-j REJECT''])]\<rparr>)"
  by (simp add: sh_desired utils_Restore_def restore_line_def string_eval)
     (simp add: shared_host_def shared_host_1_def)

lemma sh_destroy:
  "destroySets [''KUBE-SRC-OLD''] (shared_host\<lparr>filter_table := tbl\<rparr>) []
     = (None, shared_host\<lparr>filter_table := tbl, ipset_names := [''other'']\<rparr>, [''KUBE-SRC-OLD''])"
  by (simp add: ipset_Destroy_def shared_host_def)

lemma sh_outcome:
  "cleanupStaleRules shared_host shared_dump Map.empty Map.empty Map.empty =
     \<lparr>gc_err = None, stalePolicyChains = [], stalePodFwChains = [''KUBE-POD-FW-NNVPOOBNORJ6FTUI''],
      stalePolicyIPSets = [''KUBE-SRC-OLD''],
      restored = Some (desiredFilterTable [''KUBE-POD-FW-NNVPOOBNORJ6FTUI''] [] shared_dump),
      destroyed = [''KUBE-SRC-OLD''],
      host_after = shared_host\<lparr>filter_table :=
         [(''KUBE-ROUTER-INPUT'', []), (''KUBE-ROUTER-FORWARD'', []), (''KUBE-ROUTER-OUTPUT'', []),
          (''KUBE-POD-FW-DEFAULT'', [''-j REJECT''])],
         ipset_names := [''other'']\<rparr>\<rparr>"
proof (rule cleanupStaleRules_completes)
  show "\<not> failing shared_host CmdIPSetSave" by (simp add: shared_host_def)
  show "ipt_ListChains shared_host = Some [''KUBE-ROUTER-INPUT'', ''KUBE-ROUTER-FORWARD'',
    ''KUBE-ROUTER-OUTPUT'', ''KUBE-POD-FW-DEFAULT'', ''KUBE-POD-FW-NNVPOOBNORJ6FTUI'', ''DOCKER-COMMIT'']"
    by (rule sh_lists)
  show "classifyChains (Map.empty(kubeIngressNetpolChain \<mapsto> True, kubeEgressNetpolChain \<mapsto> True))
     (Map.empty(KubeDefaultPodFWChain \<mapsto> True)) [''KUBE-ROUTER-INPUT'', ''KUBE-ROUTER-FORWARD'',
    ''KUBE-ROUTER-OUTPUT'', ''KUBE-POD-FW-DEFAULT'', ''KUBE-POD-FW-NNVPOOBNORJ6FTUI'', ''DOCKER-COMMIT'']
     ([], []) = ([], [''KUBE-POD-FW-NNVPOOBNORJ6FTUI''])"
    by (rule sh_cls)
  show "classifySets Map.empty (ipset_names shared_host) [] = [''KUBE-SRC-OLD'']"
    by (rule sh_sets)
  show "gcStaleReferences [''KUBE-POD-FW-NNVPOOBNORJ6FTUI''] shared_host = (None, shared_host_1)"
    by (rule sh_refs)
  show "utils_Restore shared_host_1 (desiredFilterTable [''KUBE-POD-FW-NNVPOOBNORJ6FTUI''] [] shared_dump)
     = Some (shared_host\<lparr>filter_table :=
         [(''KUBE-ROUTER-INPUT'', []), (''KUBE-ROUTER-FORWARD'', []), (''KUBE-ROUTER-OUTPUT'', []),
          (''KUBE-POD-FW-DEFAULT'', [''-j REJECT''])]\<rparr>)"
    by (rule sh_restore)
  show "destroySets [''KUBE-SRC-OLD''] (shared_host\<lparr>filter_table :=
         [(''KUBE-ROUTER-INPUT'', []), (''KUBE-ROUTER-FORWARD'', []), (''KUBE-ROUTER-OUTPUT'', []),
          (''KUBE-POD-FW-DEFAULT'', [''-j REJECT''])]\<rparr>) []
     = (None, shared_host\<lparr>filter_table :=
         [(''KUBE-ROUTER-INPUT'', []), (''KUBE-ROUTER-FORWARD'', []), (''KUBE-ROUTER-OUTPUT'', []),
          (''KUBE-POD-FW-DEFAULT'', [''-j REJECT''])],
         ipset_names := [''other'']\<rparr>, [''KUBE-SRC-OLD''])"
    by (rule sh_destroy)
qed

text \<open>
  C5. What the run removes is not what it classified: the rebuild skips every line that
  contains \<open>COMMIT\<close>, wherever in the line (line 598). On the shared host the run returns
  no error, its only stale chain is the one an earlier sync made for \<open>web-0\<close>, the default
  pod firewall chain is kept with its rule, and the restored table has lost the chain
  \<open>DOCKER-COMMIT\<close>, which carries no reserved prefix and is in no cleanup list.
\<close>

theorem gc_removes_foreign_chain:
  "map_of (filter_table shared_host) ''DOCKER-COMMIT'' = Some [''-j RETURN'']
   \<and> \<not> strings_HasPrefix ''DOCKER-COMMIT'' kubePodFirewallChainPrefix
   \<and> \<not> strings_HasPrefix ''DOCKER-COMMIT'' kubeNetworkPolicyChainPrefix
   \<and> gc_err (cleanupStaleRules shared_host shared_dump Map.empty Map.empty Map.empty) = None
   \<and> stalePodFwChains (cleanupStaleRules shared_host shared_dump Map.empty Map.empty Map.empty)
       = [''KUBE-POD-FW-NNVPOOBNORJ6FTUI'']
   \<and> stalePolicyChains (cleanupStaleRules shared_host shared_dump Map.empty Map.empty Map.empty)
       = []
   \<and> map_of (filter_table (host_after
         (cleanupStaleRules shared_host shared_dump Map.empty Map.empty Map.empty)))
       KubeDefaultPodFWChain = Some [''-j REJECT'']
   \<and> map_of (filter_table (host_after
         (cleanupStaleRules shared_host shared_dump Map.empty Map.empty Map.empty)))
       ''DOCKER-COMMIT'' = None"
  by (simp add: sh_outcome) (simp add: shared_host_def string_eval)

section \<open>The order of the rules in a pod's chain\<close>

text \<open>
  The text that \<open>fullSyncPodFirewallChains\<close> writes is followed line by line through the
  restore: a line \<open>-I chain 1\<close> puts its rule first, a line \<open>-A chain\<close> last.
\<close>

lemma written_append: "written (xs @ ys) = written xs @ written ys"
  by (simp add: written_def)

lemma inserted_append: "inserted c (xs @ ys) = inserted c xs @ inserted c ys"
  by (induction c xs rule: inserted.induct) simp_all














































section \<open>The error of a peer evaluation\<close>

text \<open>
  C1. In the code the two cases are exchanged (\<open>if err == nil { return err }\<close>, lines 264
  and 313). When \<open>evalPodPeer\<close> fails for a selected peer, the function does not return
  that error: it creates the rule's set, refreshes it with no address and returns nil.
  When the evaluation succeeds, the function returns nil at once and the rule's set is
  neither created nor refreshed.
\<close>

theorem evalPodPeer_error_not_returned:
  "syncAffectedNetworkPolicyChains (env_with ([], Some ''no such namespace'')) client_pod []
     = (Returned None,
        [Create (policyIndexedSourcePodIPSetName ''default'' ''allow-clients'' 0),
         Refresh (policyIndexedSourcePodIPSetName ''default'' ''allow-clients'' 0) []])
   \<and> syncAffectedNetworkPolicyChains (env_with ([client_Pod], None)) client_pod []
     = (Returned None, [])"
  by (simp add: syncAffectedNetworkPolicyChains_def env_with_def allow_clients_def client_peer_def
        client_pod_def client_Pod_def syncTargetSets_def peerSelects_def podIPs_def
        enumerate_eq_zip)

section \<open>What Cleanup leaves on the host\<close>

lemmas cleanup_eval =
  Cleanup_def ipt_List_def ipt_Delete_def ipt_ListChains_def ipt_ClearChain_def
  ipt_DeleteChain_def referenced_def jumps_to_def DestroyAllWithin_def enumerate_eq_zip upt_rec

lemma Cleanup_engine_host:
  "Cleanup engine_host =
     (engine_host\<lparr>filter_table :=
        [(''INPUT'', [''-j KUBE-ROUTER-INPUT'']),
         (''FORWARD'', [''-j KUBE-ROUTER-FORWARD'']),
         (''OUTPUT'', [''-j KUBE-ROUTER-OUTPUT'']),
         (''KUBE-ROUTER-INPUT'', [''-s 10.1.2.5 -j KUBE-POD-FW-NNVPOOBNORJ6FTUI'']),
         (''KUBE-ROUTER-FORWARD'', []),
         (''KUBE-ROUTER-OUTPUT'', []),
         (''KUBE-POD-FW-NNVPOOBNORJ6FTUI'', []),
         (''KUBE-NWPLCY-DEFAULT-INGRESS'', [''-j MARK --set-mark 0x10000/0x10000''])]\<rparr>,
      [FailedCleanupChain ''KUBE-POD-FW-NNVPOOBNORJ6FTUI''])"
  by (simp add: cleanup_eval engine_host_def string_eval)

lemma Cleanup_no_input_jump:
  "Cleanup engine_host_no_input_jump =
     (engine_host\<lparr>filter_table :=
        [(''INPUT'', [''-j KUBE-ROUTER-INPUT'']),
         (''FORWARD'', [''-j KUBE-ROUTER-FORWARD'']),
         (''OUTPUT'', [''-j KUBE-ROUTER-OUTPUT'']),
         (''KUBE-ROUTER-INPUT'', []),
         (''KUBE-ROUTER-FORWARD'', []),
         (''KUBE-ROUTER-OUTPUT'', [])],
        ipset_names := [''other'']\<rparr>,
      [Cleaned])"
  by (simp add: cleanup_eval engine_host_no_input_jump_def engine_host_def string_eval)

text \<open>
  C7. On a host as a full sync leaves it, \<open>Cleanup\<close> deletes the jumps to the pod's chain
  from \<open>KUBE-ROUTER-FORWARD\<close> and \<open>KUBE-ROUTER-OUTPUT\<close> but not the one in
  \<open>KUBE-ROUTER-INPUT\<close>; it flushes the pod's chain, fails to delete it while that jump
  exists, and ends there, so that the pod's chain, the policy chain and the engine's set
  remain. On the same host without that jump \<open>Cleanup\<close> runs to its last line, and the
  three top-level chains and the jumps to them from the built-in chains remain. In
  neither case is the host as it was before the engine ran.
\<close>

theorem Cleanup_leaves_engine_state:
  "Cleanup engine_host =
     (engine_host\<lparr>filter_table :=
        [(''INPUT'', [''-j KUBE-ROUTER-INPUT'']),
         (''FORWARD'', [''-j KUBE-ROUTER-FORWARD'']),
         (''OUTPUT'', [''-j KUBE-ROUTER-OUTPUT'']),
         (''KUBE-ROUTER-INPUT'', [''-s 10.1.2.5 -j KUBE-POD-FW-NNVPOOBNORJ6FTUI'']),
         (''KUBE-ROUTER-FORWARD'', []),
         (''KUBE-ROUTER-OUTPUT'', []),
         (''KUBE-POD-FW-NNVPOOBNORJ6FTUI'', []),
         (''KUBE-NWPLCY-DEFAULT-INGRESS'', [''-j MARK --set-mark 0x10000/0x10000''])]\<rparr>,
      [FailedCleanupChain ''KUBE-POD-FW-NNVPOOBNORJ6FTUI''])
   \<and> Cleanup engine_host_no_input_jump =
     (engine_host\<lparr>filter_table :=
        [(''INPUT'', [''-j KUBE-ROUTER-INPUT'']),
         (''FORWARD'', [''-j KUBE-ROUTER-FORWARD'']),
         (''OUTPUT'', [''-j KUBE-ROUTER-OUTPUT'']),
         (''KUBE-ROUTER-INPUT'', []),
         (''KUBE-ROUTER-FORWARD'', []),
         (''KUBE-ROUTER-OUTPUT'', [])],
        ipset_names := [''other'']\<rparr>,
      [Cleaned])
   \<and> fst (Cleanup engine_host) \<noteq> host_before_engine
   \<and> fst (Cleanup engine_host_no_input_jump) \<noteq> host_before_engine"
  by (simp add: Cleanup_engine_host Cleanup_no_input_jump)
     (simp add: engine_host_def host_before_engine_def)

end
